(* ===== verification/Prelude.thy ===== *)
theory Prelude
  imports Main "HOL-Library.Multiset" "HOL-Library.Sublist"
begin

text \<open>
  Shared vocabulary of the development: the fact collections the component
  theories fill, Python's exceptions as the left injection of a sum type with
  the two ways the sources combine fallible steps (stop at the first exception;
  collect every validation error), and the list lemmas behind \<open>str.strip\<close> and
  behind \<open>ORDER BY ... DESC\<close>. Nothing here models a line of the repository:
  every definition is generic and is used by at least two component theories.
\<close>

section \<open>Fact collections\<close>

named_theorems op_defs "defining equations of the modelled operations, unfolded on demand"
named_theorems frame "what an operation leaves unchanged"
named_theorems inv_keep "operations that keep a state invariant"

section \<open>Exceptions as values\<close>

text \<open>
  A computation that may raise is a value of \<open>'e + 'a\<close>: \<open>Inl e\<close> is the raised
  exception, \<open>Inr x\<close> the returned value. \<open>and_then\<close> is the sequencing of two
  Python statements: the second runs only if the first returned.
\<close>

type_synonym ('e, 'a) result = "'e + 'a"

definition and_then :: "'e + 'a \<Rightarrow> ('a \<Rightarrow> 'e + 'b) \<Rightarrow> 'e + 'b" where
  "and_then m f = (case m of Inl e \<Rightarrow> Inl e | Inr x \<Rightarrow> f x)"

definition returns :: "'e + 'a \<Rightarrow> bool" where
  "returns m = (case m of Inl _ \<Rightarrow> False | Inr _ \<Rightarrow> True)"

text \<open>A \<open>for\<close> loop that appends \<open>f x\<close> for each element and stops at the first raise.\<close>

primrec traverse :: "('a \<Rightarrow> 'e + 'b) \<Rightarrow> 'a list \<Rightarrow> 'e + 'b list" where
  "traverse f [] = Inr []"
| "traverse f (x # xs) =
     and_then (f x) (\<lambda>y. and_then (traverse f xs) (\<lambda>ys. Inr (y # ys)))"

lemma and_then_Inl [simp]: "and_then (Inl e) f = Inl e"
  by (simp add: and_then_def)

lemma and_then_Inr [simp]: "and_then (Inr x) f = f x"
  by (simp add: and_then_def)

lemma and_then_eq_Inr: "and_then m f = Inr y \<longleftrightarrow> (\<exists>x. m = Inr x \<and> f x = Inr y)"
  by (cases m) simp_all

lemma and_then_eq_Inl:
  "and_then m f = Inl e \<longleftrightarrow> m = Inl e \<or> (\<exists>x. m = Inr x \<and> f x = Inl e)"
  by (cases m) simp_all

lemma and_then_assoc:
  "and_then (and_then m f) g = and_then m (\<lambda>x. and_then (f x) g)"
  by (cases m) simp_all

lemma and_then_return [simp]: "and_then m Inr = m"
  by (cases m) simp_all

lemma returns_simps [simp]: "returns (Inr x)" "\<not> returns (Inl e)"
  by (simp_all add: returns_def)

lemma returns_iff: "returns m \<longleftrightarrow> (\<exists>x. m = Inr x)"
  by (cases m) simp_all

lemma not_returns_iff: "\<not> returns m \<longleftrightarrow> (\<exists>e. m = Inl e)"
  by (cases m) simp_all

lemma traverse_eq_Inr:
  "traverse f xs = Inr ys \<longleftrightarrow> list_all2 (\<lambda>x y. f x = Inr y) xs ys"
proof (induction xs arbitrary: ys)
  case Nil
  show ?case by auto
next
  case (Cons x xs)
  show ?case
    by (cases ys) (auto simp: and_then_eq_Inr Cons.IH)
qed

lemma traverse_length: "traverse f xs = Inr ys \<Longrightarrow> length ys = length xs"
  by (simp add: traverse_eq_Inr list_all2_lengthD)

lemma traverse_total: "traverse (\<lambda>x. Inr (g x)) xs = Inr (map g xs)"
  by (induction xs) simp_all

lemma traverse_cong_ok:
  "(\<And>x. x \<in> set xs \<Longrightarrow> f x = Inr (g x)) \<Longrightarrow> traverse f xs = Inr (map g xs)"
  by (induction xs) simp_all

lemma traverse_Inl: "traverse f xs = Inl e \<Longrightarrow> \<exists>x\<in>set xs. f x = Inl e"
  by (induction xs) (auto simp: and_then_eq_Inl)

lemma traverse_member:
  "traverse f xs = Inr ys \<Longrightarrow> x \<in> set xs \<Longrightarrow> \<exists>y\<in>set ys. f x = Inr y"
  by (induction xs arbitrary: ys) (auto simp: and_then_eq_Inr)

lemma traverse_append:
  "traverse f (xs @ ys) =
     and_then (traverse f xs) (\<lambda>as. and_then (traverse f ys) (\<lambda>bs. Inr (as @ bs)))"
  by (induction xs) (simp_all add: and_then_assoc)

section \<open>Validation that reports every error\<close>

text \<open>
  A validator that does not stop at the first offending field returns the list
  of all of them: \<open>both\<close> checks two fields, \<open>collect\<close> a list of items.
\<close>

definition both :: "'e list + 'a \<Rightarrow> 'e list + 'b \<Rightarrow> 'e list + 'a \<times> 'b" where
  "both a b =
     (case a of
        Inl ea \<Rightarrow> (case b of Inl eb \<Rightarrow> Inl (ea @ eb) | Inr _ \<Rightarrow> Inl ea)
      | Inr x \<Rightarrow> (case b of Inl eb \<Rightarrow> Inl eb | Inr y \<Rightarrow> Inr (x, y)))"

definition errors_of :: "'e list + 'a \<Rightarrow> 'e list" where
  "errors_of r = (case r of Inl es \<Rightarrow> es | Inr _ \<Rightarrow> [])"

primrec collect :: "('e list + 'a) list \<Rightarrow> 'e list + 'a list" where
  "collect [] = Inr []"
| "collect (r # rs) = map_sum id (\<lambda>(x, xs). x # xs) (both r (collect rs))"

definition at_loc :: "'l \<Rightarrow> 'l list list + 'a \<Rightarrow> 'l list list + 'a" where
  "at_loc l r = map_sum (map ((#) l)) id r"

text \<open>Every item of a list is checked; an error of item \<open>k\<close> is reported under \<open>l k\<close>.\<close>

definition each ::
  "(nat \<Rightarrow> 'l) \<Rightarrow> ('a \<Rightarrow> 'l list list + 'b) \<Rightarrow> 'a list \<Rightarrow> 'l list list + 'b list" where
  "each l f xs = collect (map (\<lambda>(k, x). at_loc (l k) (f x)) (enumerate 0 xs))"

lemma both_simps [simp]:
  "both (Inr x) (Inr y) = Inr (x, y)"
  "both (Inl ea) (Inr y) = Inl ea"
  "both (Inr x) (Inl eb) = Inl eb"
  "both (Inl ea) (Inl eb) = Inl (ea @ eb)"
  by (simp_all add: both_def)

lemma both_eq_Inr: "both a b = Inr p \<longleftrightarrow> a = Inr (fst p) \<and> b = Inr (snd p)"
  by (cases a; cases b; cases p) auto

lemma errors_of_simps [simp]: "errors_of (Inl es) = es" "errors_of (Inr x) = []"
  by (simp_all add: errors_of_def)

lemma errors_of_both [simp]: "errors_of (both a b) = errors_of a @ errors_of b"
  by (cases a; cases b) simp_all

lemma at_loc_simps [simp]:
  "at_loc l (Inr x) = Inr x" "at_loc l (Inl es) = Inl (map ((#) l) es)"
  by (simp_all add: at_loc_def)

lemma at_loc_eq_Inr [simp]: "at_loc l r = Inr x \<longleftrightarrow> r = Inr x"
  by (cases r) simp_all

lemma collect_eq_Inr: "collect rs = Inr xs \<longleftrightarrow> rs = map Inr xs"
proof (induction rs arbitrary: xs)
  case Nil
  show ?case by auto
next
  case (Cons r rs)
  show ?case
  proof (cases "collect rs")
    case (Inl es)
    with Cons.IH [of "[]"] Cons.IH show ?thesis
      by (cases r; cases xs) auto
  next
    case (Inr ys)
    with Cons.IH [of ys] show ?thesis
      by (cases r; cases xs) auto
  qed
qed

lemma collect_map_Inr [simp]: "collect (map Inr xs) = Inr xs"
  by (simp add: collect_eq_Inr)

lemma collect_length: "collect rs = Inr xs \<Longrightarrow> length xs = length rs"
  by (auto simp: collect_eq_Inr)

lemma errors_of_collect: "errors_of (collect rs) = concat (map errors_of rs)"
  by (induction rs) (auto simp: errors_of_def both_def split: sum.splits)

lemma errors_of_at_loc: "errors_of (at_loc l r) = map ((#) l) (errors_of r)"
  by (cases r) simp_all

lemma map_at_loc_eq_map_Inr:
  "map (\<lambda>(k, x). at_loc (l k) (f x)) (enumerate n xs) = map Inr ys \<longleftrightarrow>
     list_all2 (\<lambda>x y. f x = Inr y) xs ys"
  by (induction xs arbitrary: n ys) (auto simp: list_all2_Cons1)

lemma each_Nil [simp]: "each l f [] = Inr []"
  by (simp add: each_def)

lemma each_eq_Inr: "each l f xs = Inr ys \<longleftrightarrow> list_all2 (\<lambda>x y. f x = Inr y) xs ys"
  by (simp add: each_def collect_eq_Inr map_at_loc_eq_map_Inr)

lemma each_length: "each l f xs = Inr ys \<Longrightarrow> length ys = length xs"
  by (simp add: each_eq_Inr list_all2_lengthD)

lemma each_map_ok:
  "(\<And>x. x \<in> set xs \<Longrightarrow> f (g x) = Inr x) \<Longrightarrow> each l f (map g xs) = Inr xs"
  by (simp add: each_eq_Inr list_all2_map1 list_all2_same)

section \<open>Lists: trimming and descending order\<close>

text \<open>
  \<open>trim P\<close> removes the longest prefix and the longest suffix whose elements
  satisfy \<open>P\<close>; \<open>sort_desc f\<close> orders by the key \<open>f\<close>, largest first, a stable
  sort read backwards.
\<close>

definition trim :: "('a \<Rightarrow> bool) \<Rightarrow> 'a list \<Rightarrow> 'a list" where
  "trim P xs = rev (dropWhile P (rev (dropWhile P xs)))"

definition sort_desc :: "('a \<Rightarrow> 'k::linorder) \<Rightarrow> 'a list \<Rightarrow> 'a list" where
  "sort_desc f xs = rev (sort_key f xs)"

lemma find_Some_holds: "find P xs = Some x \<Longrightarrow> P x"
  by (induction xs) (auto split: if_splits)

lemma find_SomeD: "find P xs = Some x \<Longrightarrow> P x \<and> x \<in> set xs"
  by (induction xs) (auto split: if_splits)

lemma dropWhile_snoc_keep: "\<not> P y \<Longrightarrow> dropWhile P (xs @ [y]) = dropWhile P xs @ [y]"
  by (simp add: dropWhile_append)

lemma trim_Cons_keep:
  "dropWhile P xs = y # ys \<Longrightarrow> trim P xs = y # rev (dropWhile P (rev ys))"
  using hd_dropWhile [of P xs] by (simp add: trim_def dropWhile_snoc_keep)

lemma trim_Nil [simp]: "trim P [] = []"
  by (simp add: trim_def)

lemma trim_eq_Nil: "trim P xs = [] \<longleftrightarrow> list_all P xs"
proof (cases "dropWhile P xs")
  case Nil
  then show ?thesis by (simp add: trim_def list_all_iff del: dropWhile_eq_Nil_conv) simp
next
  case (Cons y ys)
  then have "\<not> list_all P xs"
    using dropWhile_eq_Nil_conv [of P xs] by (simp add: list_all_iff)
  with trim_Cons_keep [OF Cons] show ?thesis by simp
qed

lemma trim_idem [simp]: "trim P (trim P xs) = trim P xs"
proof (cases "dropWhile P xs")
  case Nil
  then show ?thesis by (simp add: trim_def del: dropWhile_eq_Nil_conv)
next
  case (Cons y ys)
  then have y: "\<not> P y"
    using hd_dropWhile [of P xs] by simp
  let ?zs = "rev (dropWhile P (rev ys))"
  have t: "trim P xs = y # ?zs" by (rule trim_Cons_keep [OF Cons])
  from y have "dropWhile P (y # ?zs) = y # ?zs" by simp
  then have "trim P (y # ?zs) = y # rev (dropWhile P (rev ?zs))"
    by (rule trim_Cons_keep)
  with t show ?thesis by simp
qed

lemma trim_ends:
  "trim P xs \<noteq> [] \<Longrightarrow> \<not> P (hd (trim P xs)) \<and> \<not> P (last (trim P xs))"
proof (cases "dropWhile P xs")
  case Nil
  moreover assume "trim P xs \<noteq> []"
  ultimately show ?thesis by (simp add: trim_def del: dropWhile_eq_Nil_conv)
next
  case (Cons y ys)
  then have y: "\<not> P y"
    using hd_dropWhile [of P xs] by simp
  have t: "trim P xs = y # rev (dropWhile P (rev ys))" by (rule trim_Cons_keep [OF Cons])
  have "\<not> P (last (y # rev (dropWhile P (rev ys))))"
  proof (cases "dropWhile P (rev ys)")
    case Nil
    with y show ?thesis by (simp del: dropWhile_eq_Nil_conv)
  next
    case (Cons z zs)
    with hd_dropWhile [of P "rev ys"] show ?thesis by (simp add: last_rev)
  qed
  with y t show ?thesis by simp
qed

lemma trim_id: "xs \<noteq> [] \<Longrightarrow> \<not> P (hd xs) \<Longrightarrow> \<not> P (last xs) \<Longrightarrow> trim P xs = xs"
proof -
  assume ne: "xs \<noteq> []" and h: "\<not> P (hd xs)" and l: "\<not> P (last xs)"
  from ne h have "dropWhile P xs = xs" by (cases xs) simp_all
  moreover from ne l have "dropWhile P (rev xs) = rev xs"
    by (cases xs rule: rev_cases) simp_all
  ultimately show ?thesis by (simp add: trim_def)
qed

lemma set_trim_subset: "set (trim P xs) \<subseteq> set xs"
  by (auto simp: trim_def dest!: set_dropWhileD)

lemma sort_desc_sorted: "sorted_wrt (\<lambda>a b. f b \<le> f a) (sort_desc f xs)"
proof -
  have "sorted (map f (sort_key f xs))" by (rule sorted_sort_key)
  then show ?thesis
    by (simp add: sort_desc_def sorted_wrt_rev sorted_map)
qed

lemma mset_sort_desc [simp]: "mset (sort_desc f xs) = mset xs"
  by (simp add: sort_desc_def)

lemma set_sort_desc [simp]: "set (sort_desc f xs) = set xs"
  by (simp add: sort_desc_def)

lemma length_sort_desc [simp]: "length (sort_desc f xs) = length xs"
  by (simp add: sort_desc_def)

lemma sort_desc_Nil [simp]: "sort_desc f [] = []"
  by (simp add: sort_desc_def)

lemma sort_desc_filter: "sort_desc f (filter P xs) = filter P (sort_desc f xs)"
  by (simp add: sort_desc_def filter_sort [symmetric] rev_filter)

lemma sort_desc_sorted_input: "sorted (map f xs) \<Longrightarrow> sort_desc f xs = rev xs"
  by (simp add: sort_desc_def sort_key_id_if_sorted)

end
