(* ===== verification/Py_Value.thy ===== *)
theory Py_Value
  imports Prelude
begin

text \<open>
  The Python values the sources compute with, and the built-in operations they
  apply to them. \<open>json\<close> is what \<open>json.loads\<close> returns (dict, list, str, int,
  float, bool, None); \<open>exn\<close> lists the exception classes that the sources raise,
  catch or let escape. \<open>py_get\<close>, \<open>py_len\<close>, \<open>py_bool\<close> and \<open>py_iter\<close> are
  \<open>d.get(k, default)\<close>, \<open>len(v)\<close>, the truth value of \<open>v\<close> in an \<open>if\<close>, and
  the elements a \<open>for\<close> loop visits; each raises where Python raises. \<open>strip\<close>
  is \<open>str.strip()\<close>. Strings are lists of 8-bit characters, so a \<open>str\<close> is
  modelled up to code point 255.
\<close>

section \<open>Values\<close>

text \<open>
  A float is kept as mantissa and binary exponent, or as one of the three
  special values \<open>json.loads\<close> accepts; the sources never compute with floats,
  only their truth value is read.
\<close>

datatype pyfloat = Float int int | Infinity bool | NaN

datatype json =
    JNull
  | JBool bool
  | JInt int
  | JFloat pyfloat
  | JStr string
  | JArr "json list"
  | JObj "(string \<times> json) list"

text \<open>
  \<open>JObj kvs\<close> is the dict whose items are \<open>kvs\<close>; a key is looked up with
  \<open>map_of\<close>, so a list that repeats a key stands for the dict of its first
  bindings.
\<close>

section \<open>Exceptions\<close>

text \<open>The place of a validation error: a path of field names and list indices.\<close>

datatype loc = Key string | Idx nat

datatype db_error =
    Not_null_violation string
  | Invalid_input string
  | Undefined_column string
  | Unique_violation string
  | Foreign_key_violation string
  | Unavailable

datatype exn =
    ValueError string
  | JSONDecodeError
  | TypeError
  | AttributeError
  | ValidationError "loc list list"
  | ProviderError string
  | APIError db_error

type_synonym 'a py = "exn + 'a"

section \<open>Built-in operations\<close>

definition dict_get :: "(string \<times> json) list \<Rightarrow> string \<Rightarrow> json \<Rightarrow> json" where
  "dict_get kvs k d = (case map_of kvs k of None \<Rightarrow> d | Some v \<Rightarrow> v)"

fun py_get :: "json \<Rightarrow> string \<Rightarrow> json \<Rightarrow> json py" where
  "py_get (JObj kvs) k d = Inr (dict_get kvs k d)"
| "py_get _ k d = Inl AttributeError"

fun float_nonzero :: "pyfloat \<Rightarrow> bool" where
  "float_nonzero (Float m e) = (m \<noteq> 0)"
| "float_nonzero _ = True"

fun py_bool :: "json \<Rightarrow> bool" where
  "py_bool JNull = False"
| "py_bool (JBool b) = b"
| "py_bool (JInt n) = (n \<noteq> 0)"
| "py_bool (JFloat x) = float_nonzero x"
| "py_bool (JStr s) = (s \<noteq> [])"
| "py_bool (JArr xs) = (xs \<noteq> [])"
| "py_bool (JObj kvs) = (kvs \<noteq> [])"

fun py_len :: "json \<Rightarrow> nat py" where
  "py_len (JStr s) = Inr (length s)"
| "py_len (JArr xs) = Inr (length xs)"
| "py_len (JObj kvs) = Inr (length (remdups (map fst kvs)))"
| "py_len _ = Inl TypeError"

fun py_iter :: "json \<Rightarrow> json list py" where
  "py_iter (JStr s) = Inr (map (\<lambda>c. JStr [c]) s)"
| "py_iter (JArr xs) = Inr xs"
| "py_iter (JObj kvs) = Inr (map JStr (remdups (map fst kvs)))"
| "py_iter _ = Inl TypeError"

section \<open>Strings\<close>

text \<open>
  \<open>str.isspace\<close> for one character below code point 256: the ASCII control
  characters 9 to 13 and 28 to 31, the space, NEL (133) and the no-break space
  (160).
\<close>

definition isspace :: "char \<Rightarrow> bool" where
  "isspace c =
     (let n = (of_char c :: nat)
      in (9 \<le> n \<and> n \<le> 13) \<or> (28 \<le> n \<and> n \<le> 32) \<or> n = 133 \<or> n = 160)"

definition strip :: "string \<Rightarrow> string" where
  "strip s = trim isspace s"

section \<open>Facts\<close>

lemma dict_get_Some [simp]: "map_of kvs k = Some v \<Longrightarrow> dict_get kvs k d = v"
  by (simp add: dict_get_def)

lemma dict_get_None [simp]: "map_of kvs k = None \<Longrightarrow> dict_get kvs k d = d"
  by (simp add: dict_get_def)

lemma dict_get_Cons [simp]:
  "dict_get ((k', v) # kvs) k d = (if k = k' then v else dict_get kvs k d)"
  by (simp add: dict_get_def)

lemma dict_get_Nil [simp]: "dict_get [] k d = d"
  by (simp add: dict_get_def)

lemma dict_get_default_irrelevant: "k \<in> fst ` set kvs \<Longrightarrow> dict_get kvs k d = dict_get kvs k d'"
  by (simp add: dict_get_def map_of_eq_None_iff split: option.splits)

lemma py_get_eq_Inr: "py_get v k d = Inr x \<longleftrightarrow> (\<exists>kvs. v = JObj kvs \<and> x = dict_get kvs k d)"
  by (cases v) auto

lemma py_get_eq_Inl: "py_get v k d = Inl e \<longleftrightarrow> e = AttributeError \<and> (\<forall>kvs. v \<noteq> JObj kvs)"
  by (cases v) auto

lemma py_get_returns_iff: "returns (py_get v k d) \<longleftrightarrow> (\<exists>kvs. v = JObj kvs)"
  by (cases v) simp_all

lemma py_get_raises: "py_get v k d = Inl e \<Longrightarrow> e = AttributeError"
  by (cases v) simp_all

lemma py_get_same_object:
  "py_get v k d = Inr x \<Longrightarrow> returns (py_get v k' d')"
  by (cases v) simp_all

lemma py_len_raises: "py_len v = Inl e \<Longrightarrow> e = TypeError"
  by (cases v) simp_all

lemma py_iter_raises: "py_iter v = Inl e \<Longrightarrow> e = TypeError"
  by (cases v) simp_all

lemma py_len_iter: "py_len v = map_sum id length (py_iter v)"
  by (cases v) simp_all

lemma py_bool_len: "py_len v = Inr n \<Longrightarrow> py_bool v \<longleftrightarrow> 0 < n"
  by (cases v) auto

lemma isspace_space [simp]: "isspace CHR '' ''"
  by (simp add: isspace_def)

lemma isspace_newline [simp]: "isspace CHR 0x0A"
  by (simp add: isspace_def)

lemma isspace_tab [simp]: "isspace CHR 0x09"
  by (simp add: isspace_def)

lemma strip_Nil [simp]: "strip [] = []"
  by (simp add: strip_def)

lemma strip_eq_Nil: "strip s = [] \<longleftrightarrow> list_all isspace s"
  by (simp add: strip_def trim_eq_Nil)

lemma strip_idem [simp]: "strip (strip s) = strip s"
  by (simp add: strip_def)

lemma strip_ends:
  "strip s \<noteq> [] \<Longrightarrow> \<not> isspace (hd (strip s)) \<and> \<not> isspace (last (strip s))"
  unfolding strip_def by (rule trim_ends)

lemma strip_Cons_nonspace: "\<not> isspace c \<Longrightarrow> strip (c # s) \<noteq> []"
  by (simp add: strip_eq_Nil)

end
