(* ===== verification/Schema.thy ===== *)
theory Schema
  imports Py_Value
begin

text \<open>
  The pydantic models of \<open>main.py\<close> and \<open>models.py\<close>: each class is a record,
  each \<open>Literal\<close> type a datatype with its spelling, and each class has the
  validator that pydantic derives from its field declarations (a required field
  must be present and not null, an \<open>Optional\<close> field defaults to \<open>None\<close>, a
  \<open>Literal\<close> field must be one of its strings, unknown keys are ignored, and
  every offending field is reported). How a non-null value of the wrong JSON
  kind is read into a \<open>str\<close> or \<open>int\<close> field differs between pydantic releases,
  so it is a parameter: a \<open>coercion\<close>. \<open>lawful\<close> is all the development assumes
  of it, \<open>strict\<close> is the instance that coerces nothing. The same record
  describes the casts of the database (\<open>Store\<close>), which also reads instants
  (\<open>as_time\<close>); \<open>strict\<close> takes an instant to be written as a non-negative
  integer. The encoders give the
  JSON shape of the response body; decoding an encoded value gives it back.
  Record fields of \<open>DBAnalysisRecord\<close> carry the prefix \<open>db_\<close>, since a field
  name is a constant and other classes use the same names.
\<close>

section \<open>Reading scalars\<close>

record coercion =
  as_str :: "json \<Rightarrow> string option"
  as_int :: "json \<Rightarrow> int option"
  as_time :: "json \<Rightarrow> nat option"

definition strict :: coercion where
  "strict =
     \<lparr>as_str = (\<lambda>v. case v of JStr s \<Rightarrow> Some s | _ \<Rightarrow> None),
      as_int = (\<lambda>v. case v of JInt n \<Rightarrow> Some n | _ \<Rightarrow> None),
      as_time = (\<lambda>v. case v of JInt n \<Rightarrow> if 0 \<le> n then Some (nat n) else None | _ \<Rightarrow> None)\<rparr>"

definition lawful :: "coercion \<Rightarrow> bool" where
  "lawful c \<longleftrightarrow> (\<forall>s. as_str c (JStr s) = Some s) \<and> (\<forall>n. as_int c (JInt n) = Some n)"

type_synonym 'a checked = "loc list list + 'a"

text \<open>A value for a parameter or field that is declared without \<open>Optional\<close>.\<close>

definition non_null :: "(json \<Rightarrow> 'a option) \<Rightarrow> json \<Rightarrow> 'a option" where
  "non_null rd v = (case v of JNull \<Rightarrow> None | _ \<Rightarrow> rd v)"

definition arg :: "(json \<Rightarrow> 'a option) \<Rightarrow> string \<Rightarrow> json \<Rightarrow> 'a checked" where
  "arg rd k v = (case non_null rd v of None \<Rightarrow> Inl [[Key k]] | Some x \<Rightarrow> Inr x)"

definition req_field :: "(json \<Rightarrow> 'a option) \<Rightarrow> (string \<times> json) list \<Rightarrow> string \<Rightarrow> 'a checked" where
  "req_field rd kvs k = (case map_of kvs k of None \<Rightarrow> Inl [[Key k]] | Some v \<Rightarrow> arg rd k v)"

definition opt_field ::
  "(json \<Rightarrow> 'a option) \<Rightarrow> (string \<times> json) list \<Rightarrow> string \<Rightarrow> 'a option checked" where
  "opt_field rd kvs k =
     (case map_of kvs k of
        None \<Rightarrow> Inr None
      | Some JNull \<Rightarrow> Inr None
      | Some v \<Rightarrow> (case rd v of None \<Rightarrow> Inl [[Key k]] | Some x \<Rightarrow> Inr (Some x)))"

definition literal :: "(string \<Rightarrow> 'a option) \<Rightarrow> json \<Rightarrow> 'a option" where
  "literal of_str v = (case v of JStr s \<Rightarrow> of_str s | _ \<Rightarrow> None)"

section \<open>The models\<close>

record code_analysis_request =
  code :: string
  language :: string
  file_name :: "string option"

datatype issue_type_t = Bug | Security | Performance | Style | Logic | Best_practice

datatype severity_t = Critical | High | Medium | Low | Info

fun issue_type_str :: "issue_type_t \<Rightarrow> string" where
  "issue_type_str Bug = ''bug''"
| "issue_type_str Security = ''security''"
| "issue_type_str Performance = ''performance''"
| "issue_type_str Style = ''style''"
| "issue_type_str Logic = ''logic''"
| "issue_type_str Best_practice = ''best-practice''"

fun severity_str :: "severity_t \<Rightarrow> string" where
  "severity_str Critical = ''critical''"
| "severity_str High = ''high''"
| "severity_str Medium = ''medium''"
| "severity_str Low = ''low''"
| "severity_str Info = ''info''"

definition issue_type_of_str :: "string \<Rightarrow> issue_type_t option" where
  "issue_type_of_str s =
     find (\<lambda>t. issue_type_str t = s) [Bug, Security, Performance, Style, Logic, Best_practice]"

definition severity_of_str :: "string \<Rightarrow> severity_t option" where
  "severity_of_str s = find (\<lambda>t. severity_str t = s) [Critical, High, Medium, Low, Info]"

record issue =
  issue_type :: issue_type_t
  severity :: severity_t
  title :: string
  description :: string
  line_number :: "int option"
  suggestion :: "string option"

record analysis_data =
  issues :: "issue list"
  optimized_code :: string
  summary :: string
  issues_count :: int

record api_response =
  analysis :: analysis_data
  code_snippet :: "string option"

text \<open>
  An identifier is the string the store hands out; an instant is a point on a
  discrete time line (its rendering as text is not modelled).
\<close>

type_synonym uuid = string
type_synonym timestamp = nat

record db_analysis_record =
  db_id :: uuid
  db_user_id :: string
  db_code_snippet :: string
  db_language :: string
  db_file_name :: "string option"
  db_summary :: "string option"
  db_optimized_code :: "string option"
  db_issues_count :: "int option"
  db_created_at :: timestamp

section \<open>Validators\<close>

fun validate_request :: "coercion \<Rightarrow> json \<Rightarrow> code_analysis_request checked" where
  "validate_request c (JObj kvs) =
     map_sum id (\<lambda>(cd, lg, fn). \<lparr>code = cd, language = lg, file_name = fn\<rparr>)
       (both (req_field (as_str c) kvs ''code'')
       (both (req_field (as_str c) kvs ''language'')
             (opt_field (as_str c) kvs ''file_name'')))"
| "validate_request c _ = Inl [[]]"

fun validate_issue :: "coercion \<Rightarrow> json \<Rightarrow> issue checked" where
  "validate_issue c (JObj kvs) =
     map_sum id
       (\<lambda>(it, sv, ti, de, ln, sg).
          \<lparr>issue_type = it, severity = sv, title = ti, description = de,
           line_number = ln, suggestion = sg\<rparr>)
       (both (req_field (literal issue_type_of_str) kvs ''issue_type'')
       (both (req_field (literal severity_of_str) kvs ''severity'')
       (both (req_field (as_str c) kvs ''title'')
       (both (req_field (as_str c) kvs ''description'')
       (both (opt_field (as_int c) kvs ''line_number'')
             (opt_field (as_str c) kvs ''suggestion''))))))"
| "validate_issue c _ = Inl [[]]"

fun validate_issues :: "coercion \<Rightarrow> json \<Rightarrow> issue list checked" where
  "validate_issues c (JArr xs) = each Idx (validate_issue c) xs"
| "validate_issues c _ = Inl [[]]"

text \<open>
  \<open>AnalysisData(issues=.., optimized_code=.., summary=.., issues_count=n)\<close>:
  the constructor call of \<open>main.py\<close>, whose last argument is a Python \<open>int\<close>
  already.
\<close>

definition validate_analysis_data ::
  "coercion \<Rightarrow> json \<Rightarrow> json \<Rightarrow> json \<Rightarrow> nat \<Rightarrow> analysis_data py" where
  "validate_analysis_data c issues_v code_v summary_v n =
     (case both (at_loc (Key ''issues'') (validate_issues c issues_v))
          (both (arg (as_str c) ''optimized_code'' code_v)
                (arg (as_str c) ''summary'' summary_v)) of
        Inl es \<Rightarrow> Inl (ValidationError es)
      | Inr (is, oc, sm) \<Rightarrow>
          Inr \<lparr>issues = is, optimized_code = oc, summary = sm, issues_count = int n\<rparr>)"

section \<open>Encoders\<close>

definition opt_json :: "('a \<Rightarrow> json) \<Rightarrow> 'a option \<Rightarrow> json" where
  "opt_json enc x = (case x of None \<Rightarrow> JNull | Some y \<Rightarrow> enc y)"

definition issue_to_json :: "issue \<Rightarrow> json" where
  "issue_to_json i =
     JObj [(''issue_type'', JStr (issue_type_str (issue_type i))),
           (''severity'', JStr (severity_str (severity i))),
           (''title'', JStr (title i)),
           (''description'', JStr (description i)),
           (''line_number'', opt_json JInt (line_number i)),
           (''suggestion'', opt_json JStr (suggestion i))]"

definition analysis_to_json :: "analysis_data \<Rightarrow> json" where
  "analysis_to_json a =
     JObj [(''issues'', JArr (map issue_to_json (issues a))),
           (''optimized_code'', JStr (optimized_code a)),
           (''summary'', JStr (summary a)),
           (''issues_count'', JInt (issues_count a))]"

definition response_to_json :: "api_response \<Rightarrow> json" where
  "response_to_json r =
     JObj [(''analysis'', analysis_to_json (analysis r)),
           (''code_snippet'', opt_json JStr (code_snippet r))]"

definition request_to_json :: "code_analysis_request \<Rightarrow> json" where
  "request_to_json r =
     JObj [(''code'', JStr (code r)), (''language'', JStr (language r)),
           (''file_name'', opt_json JStr (file_name r))]"

section \<open>Facts about the scalar readers\<close>

lemma lawful_strict [simp]: "lawful strict"
  by (simp add: lawful_def strict_def)

lemma lawful_as_str [simp]: "lawful c \<Longrightarrow> as_str c (JStr s) = Some s"
  by (simp add: lawful_def)

lemma lawful_as_int [simp]: "lawful c \<Longrightarrow> as_int c (JInt n) = Some n"
  by (simp add: lawful_def)

lemma strict_as_str: "as_str strict v = Some s \<longleftrightarrow> v = JStr s"
  by (cases v) (simp_all add: strict_def)

lemma strict_as_int: "as_int strict v = Some n \<longleftrightarrow> v = JInt n"
  by (cases v) (simp_all add: strict_def)

lemma non_null_JNull [simp]: "non_null rd JNull = None"
  by (simp add: non_null_def)

lemma non_null_other: "v \<noteq> JNull \<Longrightarrow> non_null rd v = rd v"
  by (cases v) (simp_all add: non_null_def)

lemma arg_eq_Inr: "arg rd k v = Inr x \<longleftrightarrow> v \<noteq> JNull \<and> rd v = Some x"
  by (cases v) (auto simp: arg_def non_null_def split: option.splits)

lemma arg_JNull [simp]: "arg rd k JNull = Inl [[Key k]]"
  by (simp add: arg_def)

lemma arg_str [simp]: "lawful c \<Longrightarrow> arg (as_str c) k (JStr s) = Inr s"
  by (simp add: arg_eq_Inr)

lemma arg_errors: "arg rd k v = Inl es \<Longrightarrow> es = [[Key k]]"
  by (auto simp: arg_def split: option.splits)

lemma req_field_eq_Inr:
  "req_field rd kvs k = Inr x \<longleftrightarrow> (\<exists>v. map_of kvs k = Some v \<and> v \<noteq> JNull \<and> rd v = Some x)"
  by (auto simp: req_field_def arg_eq_Inr split: option.splits)

lemma req_field_errors: "req_field rd kvs k = Inl es \<Longrightarrow> es = [[Key k]]"
  by (auto simp: req_field_def dest: arg_errors split: option.splits)

lemma opt_field_eq_Inr:
  "opt_field rd kvs k = Inr x \<longleftrightarrow>
     (case map_of kvs k of
        None \<Rightarrow> x = None
      | Some v \<Rightarrow> if v = JNull then x = None else x \<noteq> None \<and> rd v = x)"
  by (auto simp: opt_field_def split: option.splits json.splits)

lemma opt_field_errors: "opt_field rd kvs k = Inl es \<Longrightarrow> es = [[Key k]]"
  by (auto simp: opt_field_def split: option.splits json.splits)

lemma literal_eq_Some: "literal of_str v = Some x \<longleftrightarrow> (\<exists>s. v = JStr s \<and> of_str s = Some x)"
  by (cases v) (simp_all add: literal_def)

lemma opt_json_simps [simp]: "opt_json enc None = JNull" "opt_json enc (Some y) = enc y"
  by (simp_all add: opt_json_def)

section \<open>Facts about the literal types\<close>

lemma issue_type_of_str_str [simp]: "issue_type_of_str (issue_type_str t) = Some t"
  by (cases t) (simp_all add: issue_type_of_str_def)

lemma severity_of_str_str [simp]: "severity_of_str (severity_str t) = Some t"
  by (cases t) (simp_all add: severity_of_str_def)

lemma issue_type_of_str_eq_Some: "issue_type_of_str s = Some t \<longleftrightarrow> s = issue_type_str t"
proof
  assume "issue_type_of_str s = Some t"
  then have "issue_type_str t = s"
    unfolding issue_type_of_str_def by (rule find_Some_holds)
  then show "s = issue_type_str t" by simp
qed simp

lemma severity_of_str_eq_Some: "severity_of_str s = Some t \<longleftrightarrow> s = severity_str t"
proof
  assume "severity_of_str s = Some t"
  then have "severity_str t = s"
    unfolding severity_of_str_def by (rule find_Some_holds)
  then show "s = severity_str t" by simp
qed simp

lemma issue_type_str_inj: "issue_type_str a = issue_type_str b \<longleftrightarrow> a = b"
  by (metis issue_type_of_str_str option.inject)

lemma severity_str_inj: "severity_str a = severity_str b \<longleftrightarrow> a = b"
  by (metis severity_of_str_str option.inject)

lemma issue_type_of_str_None:
  "issue_type_of_str s = None \<longleftrightarrow>
     s \<notin> {''bug'', ''security'', ''performance'', ''style'', ''logic'', ''best-practice''}"
  by (auto simp: issue_type_of_str_def)

lemma severity_of_str_None:
  "severity_of_str s = None \<longleftrightarrow> s \<notin> {''critical'', ''high'', ''medium'', ''low'', ''info''}"
  by (auto simp: severity_of_str_def)

section \<open>Facts about the validators\<close>

lemma validate_issue_eq_Inr:
  "validate_issue c v = Inr i \<longleftrightarrow>
     (\<exists>kvs. v = JObj kvs \<and>
        req_field (literal issue_type_of_str) kvs ''issue_type'' = Inr (issue_type i) \<and>
        req_field (literal severity_of_str) kvs ''severity'' = Inr (severity i) \<and>
        req_field (as_str c) kvs ''title'' = Inr (title i) \<and>
        req_field (as_str c) kvs ''description'' = Inr (description i) \<and>
        opt_field (as_int c) kvs ''line_number'' = Inr (line_number i) \<and>
        opt_field (as_str c) kvs ''suggestion'' = Inr (suggestion i))"
  by (cases v) (auto simp: both_eq_Inr map_sum_def split: sum.splits prod.splits)

lemma validate_request_eq_Inr:
  "validate_request c v = Inr r \<longleftrightarrow>
     (\<exists>kvs. v = JObj kvs \<and>
        req_field (as_str c) kvs ''code'' = Inr (code r) \<and>
        req_field (as_str c) kvs ''language'' = Inr (language r) \<and>
        opt_field (as_str c) kvs ''file_name'' = Inr (file_name r))"
  by (cases v) (auto simp: both_eq_Inr map_sum_def split: sum.splits prod.splits)

lemma validate_issues_eq_Inr:
  "validate_issues c v = Inr is \<longleftrightarrow>
     (\<exists>xs. v = JArr xs \<and> list_all2 (\<lambda>x i. validate_issue c x = Inr i) xs is)"
  by (cases v) (simp_all add: each_eq_Inr)

lemma validate_issues_length:
  "validate_issues c v = Inr is \<Longrightarrow> py_len v = Inr (length is)"
  by (auto simp: validate_issues_eq_Inr dest: list_all2_lengthD)

lemma validate_analysis_data_eq_Inr:
  "validate_analysis_data c iv cv sv n = Inr a \<longleftrightarrow>
     validate_issues c iv = Inr (issues a) \<and>
     arg (as_str c) ''optimized_code'' cv = Inr (optimized_code a) \<and>
     arg (as_str c) ''summary'' sv = Inr (summary a) \<and>
     issues_count a = int n"
  by (auto simp: validate_analysis_data_def both_eq_Inr split: sum.splits prod.splits)

lemma validate_analysis_data_raises:
  "validate_analysis_data c iv cv sv n = Inl e \<Longrightarrow> \<exists>es. e = ValidationError es"
  by (auto simp: validate_analysis_data_def split: sum.splits prod.splits)

lemma errors_of_req_field:
  "errors_of (req_field rd kvs k) = (if returns (req_field rd kvs k) then [] else [[Key k]])"
  by (cases "req_field rd kvs k") (auto dest: req_field_errors)

lemma errors_of_opt_field:
  "errors_of (opt_field rd kvs k) = (if returns (opt_field rd kvs k) then [] else [[Key k]])"
  by (cases "opt_field rd kvs k") (auto dest: opt_field_errors)

lemma errors_of_map_sum_id [simp]: "errors_of (map_sum id f r) = errors_of r"
  by (cases r) simp_all

lemma validate_issue_errors:
  "errors_of (validate_issue c (JObj kvs)) =
     errors_of (req_field (literal issue_type_of_str) kvs ''issue_type'') @
     errors_of (req_field (literal severity_of_str) kvs ''severity'') @
     errors_of (req_field (as_str c) kvs ''title'') @
     errors_of (req_field (as_str c) kvs ''description'') @
     errors_of (opt_field (as_int c) kvs ''line_number'') @
     errors_of (opt_field (as_str c) kvs ''suggestion'')"
  by simp

section \<open>Round trips\<close>

text \<open>
  C22. An \<open>Issue\<close> that the service sends (\<open>issue_to_json\<close>) is accepted by the
  validator of \<open>Issue\<close> and read back unchanged, under every lawful coercion:
  the response body satisfies the schema it is declared with.
\<close>

theorem validate_issue_roundtrip:
  "lawful c \<Longrightarrow> validate_issue c (issue_to_json i) = Inr i"
  by (cases "line_number i"; cases "suggestion i")
     (simp_all add: issue_to_json_def req_field_def opt_field_def arg_def non_null_def literal_def)

theorem validate_issue_roundtrip_witness:
  "lawful strict \<and>
   validate_issue strict
     (issue_to_json \<lparr>issue_type = Style, severity = Low, title = ''t'', description = ''d'',
        line_number = Some 3, suggestion = None\<rparr>) =
   Inr \<lparr>issue_type = Style, severity = Low, title = ''t'', description = ''d'',
        line_number = Some 3, suggestion = None\<rparr>"
  using validate_issue_roundtrip [of strict] by simp

lemma validate_issues_roundtrip:
  "lawful c \<Longrightarrow> validate_issues c (JArr (map issue_to_json is)) = Inr is"
  by (simp add: each_map_ok validate_issue_roundtrip)

lemma validate_request_roundtrip:
  "lawful c \<Longrightarrow> validate_request c (request_to_json r) = Inr r"
  by (cases "file_name r")
     (simp_all add: request_to_json_def req_field_def opt_field_def arg_def non_null_def)

section \<open>Enum membership\<close>

text \<open>
  C23. \<open>validate_issue\<close> accepts a value only if it is an object whose
  \<open>issue_type\<close> and \<open>severity\<close> are strings of the two \<open>Literal\<close> sets, and the
  accepted issue carries exactly these; this holds for every coercion, lawful
  or not.
\<close>

theorem validate_issue_enum_membership:
  "validate_issue c v = Inr i \<Longrightarrow>
     \<exists>kvs. v = JObj kvs \<and>
       map_of kvs ''issue_type'' = Some (JStr (issue_type_str (issue_type i))) \<and>
       map_of kvs ''severity'' = Some (JStr (severity_str (severity i)))"
  by (auto simp: validate_issue_eq_Inr req_field_eq_Inr literal_eq_Some
        issue_type_of_str_eq_Some severity_of_str_eq_Some)

theorem validate_issue_enum_membership_witness:
  "validate_issue strict
     (JObj [(''issue_type'', JStr ''bug''), (''severity'', JStr ''high''),
            (''title'', JStr ''t''), (''description'', JStr ''d'')]) =
   Inr \<lparr>issue_type = Bug, severity = High, title = ''t'', description = ''d'',
        line_number = None, suggestion = None\<rparr> \<and>
   (\<exists>kvs. JObj [(''issue_type'', JStr ''bug''), (''severity'', JStr ''high''),
            (''title'', JStr ''t''), (''description'', JStr ''d'')] = JObj kvs \<and>
      map_of kvs ''issue_type'' = Some (JStr (issue_type_str Bug)) \<and>
      map_of kvs ''severity'' = Some (JStr (severity_str High)))"
proof -
  have ok: "validate_issue strict
     (JObj [(''issue_type'', JStr ''bug''), (''severity'', JStr ''high''),
            (''title'', JStr ''t''), (''description'', JStr ''d'')]) =
   Inr \<lparr>issue_type = Bug, severity = High, title = ''t'', description = ''d'',
        line_number = None, suggestion = None\<rparr>"
    by (simp add: req_field_def opt_field_def arg_def non_null_def literal_def strict_def
          issue_type_of_str_def severity_of_str_def)
  from validate_issue_enum_membership [OF ok] ok show ?thesis by simp
qed

text \<open>
  C24. A \<open>severity\<close> outside the \<open>Literal\<close> set (missing, null, not a string, or
  another string) makes \<open>validate_issue\<close> fail, and the failure names the
  field \<open>severity\<close>.
\<close>

theorem validate_issue_rejects_severity:
  "(\<forall>t. map_of kvs ''severity'' \<noteq> Some (JStr (severity_str t))) \<Longrightarrow>
     \<not> returns (validate_issue c (JObj kvs)) \<and>
     [Key ''severity''] \<in> set (errors_of (validate_issue c (JObj kvs)))"
proof -
  assume bad: "\<forall>t. map_of kvs ''severity'' \<noteq> Some (JStr (severity_str t))"
  have no: "\<not> returns (req_field (literal severity_of_str) kvs ''severity'')"
    using bad by (auto simp: returns_iff req_field_eq_Inr literal_eq_Some severity_of_str_eq_Some)
  then have "[Key ''severity''] \<in> set (errors_of (validate_issue c (JObj kvs)))"
    by (simp add: validate_issue_errors errors_of_req_field)
  moreover from no have "\<not> returns (validate_issue c (JObj kvs))"
    by (auto simp: returns_iff validate_issue_eq_Inr simp del: validate_issue.simps)
  ultimately show ?thesis by simp
qed

theorem validate_issue_rejects_severity_witness:
  "\<not> returns (validate_issue strict
       (JObj [(''issue_type'', JStr ''bug''), (''severity'', JStr ''urgent''),
              (''title'', JStr ''t''), (''description'', JStr ''d'')])) \<and>
   [Key ''severity''] \<in> set (errors_of (validate_issue strict
       (JObj [(''issue_type'', JStr ''bug''), (''severity'', JStr ''urgent''),
              (''title'', JStr ''t''), (''description'', JStr ''d'')])))"
proof -
  have "\<forall>t. map_of [(''issue_type'', JStr ''bug''), (''severity'', JStr ''urgent''),
              (''title'', JStr ''t''), (''description'', JStr ''d'')] ''severity''
          \<noteq> Some (JStr (severity_str t))"
  proof
    fix t show "map_of [(''issue_type'', JStr ''bug''), (''severity'', JStr ''urgent''),
              (''title'', JStr ''t''), (''description'', JStr ''d'')] ''severity''
          \<noteq> Some (JStr (severity_str t))"
      by (cases t) simp_all
  qed
  then show ?thesis by (rule validate_issue_rejects_severity)
qed

text \<open>The definitions a closed instance unfolds when it is evaluated.\<close>

lemmas schema_eval =
  validate_analysis_data_def req_field_def opt_field_def arg_def non_null_def literal_def
  issue_type_of_str_def severity_of_str_def both_def each_def at_loc_def strict_def

end
