(* ===== verification/Store.thy ===== *)
theory Store
  imports Schema
begin

text \<open>
  The hosted database as \<open>setup_db.py\<close> declares it: the two tables
  \<open>analyses\<close> and \<open>analysis_results\<close> as lists of typed rows in insertion
  order, and the three statements the service sends. A row arrives as a dict
  (\<open>row\<close>); each column is read as its declaration says: a missing key takes
  the column's \<open>DEFAULT\<close> (a generated identifier for \<open>id\<close>, the time of the
  statement for \<open>created_at\<close>, 0 for \<open>issues_count\<close>), \<open>null\<close> is refused by
  \<open>NOT NULL\<close> and by \<open>PRIMARY KEY\<close>, an \<open>INTEGER\<close> outside 32 bits is
  refused, \<open>PRIMARY KEY\<close> refuses an identifier that exists,
  \<open>REFERENCES analyses(id)\<close> refuses a result row without its parent, and a
  key that is no column is refused. How a JSON value of another kind is cast
  into \<open>TEXT\<close>, \<open>INTEGER\<close>, \<open>UUID\<close> or a timestamp is again a \<open>coercion\<close>
  parameter.

  Only the DDL and the three calls are code of the repository. What the
  database does with a statement is PostgreSQL's behaviour as the DDL fixes
  it, and is assumed here: constraints are checked before a row is stored, a
  bulk insert is one statement and is applied as a whole or not at all, an
  insert returns the rows it stored. \<open>ORDER BY created_at DESC\<close> leaves the
  order of rows with equal \<open>created_at\<close> open; the model fixes it (of two such
  rows the one inserted later comes first), so a theorem that states the exact
  list a select returns states it for this choice. \<open>ON DELETE CASCADE\<close> and
  the two indexes have no counterpart: no statement of the service deletes.

  What the database and the network decide is not state of the service; it is
  the \<open>outcome\<close> given to each call: whether the statement is executed, what
  the client sees (the rows, an empty answer, an exception), the identifiers
  \<open>gen_random_uuid()\<close> draws and the value of \<open>now()\<close>. A theorem that holds
  for every outcome holds whatever the store does.
\<close>

section \<open>Tables\<close>

record analyses_row =
  a_id :: uuid
  a_user_id :: string
  a_code_snippet :: string
  a_language :: string
  a_file_name :: "string option"
  a_summary :: "string option"
  a_optimized_code :: "string option"
  a_issues_count :: "int option"
  a_created_at :: timestamp

record results_row =
  r_id :: uuid
  r_analysis_id :: uuid
  r_issue_type :: string
  r_severity :: string
  r_title :: string
  r_description :: string
  r_line_number :: "int option"
  r_suggestion :: "string option"
  r_created_at :: timestamp

record store =
  analyses :: "analyses_row list"
  analysis_results :: "results_row list"

definition empty_store :: store where
  "empty_store = \<lparr>analyses = [], analysis_results = []\<rparr>"

section \<open>What the environment decides\<close>

datatype reply = Data | Empty | Raise exn

record outcome =
  executes :: bool
  reply :: reply
  fresh :: "nat \<Rightarrow> uuid"
  clock :: timestamp

definition answer :: "outcome \<Rightarrow> 'a list \<Rightarrow> 'a list py" where
  "answer oc rows = (case reply oc of Raise e \<Rightarrow> Inl e | Empty \<Rightarrow> Inr [] | Data \<Rightarrow> Inr rows)"

text \<open>
  The two outcomes the scenarios use: the store works (\<open>served\<close>), the store
  cannot be reached (\<open>unreachable\<close>).
\<close>

definition served :: "(nat \<Rightarrow> uuid) \<Rightarrow> timestamp \<Rightarrow> outcome" where
  "served ids t = \<lparr>executes = True, reply = Data, fresh = ids, clock = t\<rparr>"

definition unreachable :: "exn \<Rightarrow> outcome" where
  "unreachable e = \<lparr>executes = False, reply = Raise e, fresh = (\<lambda>_. []), clock = 0\<rparr>"

section \<open>Columns\<close>

type_synonym row = "(string \<times> json) list"

definition col_not_null :: "(json \<Rightarrow> 'a option) \<Rightarrow> row \<Rightarrow> string \<Rightarrow> db_error + 'a" where
  "col_not_null rd r k =
     (case map_of r k of
        None \<Rightarrow> Inl (Not_null_violation k)
      | Some JNull \<Rightarrow> Inl (Not_null_violation k)
      | Some v \<Rightarrow> (case rd v of None \<Rightarrow> Inl (Invalid_input k) | Some x \<Rightarrow> Inr x))"

definition col_nullable ::
  "(json \<Rightarrow> 'a option) \<Rightarrow> 'a option \<Rightarrow> row \<Rightarrow> string \<Rightarrow> db_error + 'a option" where
  "col_nullable rd dflt r k =
     (case map_of r k of
        None \<Rightarrow> Inr dflt
      | Some JNull \<Rightarrow> Inr None
      | Some v \<Rightarrow> (case rd v of None \<Rightarrow> Inl (Invalid_input k) | Some x \<Rightarrow> Inr (Some x)))"

text \<open>
  A column that is \<open>NOT NULL\<close> and has a \<open>DEFAULT\<close>: \<open>id\<close> (a primary key is
  not null) and \<open>created_at\<close>. An \<open>INTEGER\<close> column holds 32 bits.
\<close>

definition col_default :: "(json \<Rightarrow> 'a option) \<Rightarrow> 'a \<Rightarrow> row \<Rightarrow> string \<Rightarrow> db_error + 'a" where
  "col_default rd dflt r k =
     (case map_of r k of
        None \<Rightarrow> Inr dflt
      | Some JNull \<Rightarrow> Inl (Not_null_violation k)
      | Some v \<Rightarrow> (case rd v of None \<Rightarrow> Inl (Invalid_input k) | Some x \<Rightarrow> Inr x))"

definition int4 :: "(json \<Rightarrow> int option) \<Rightarrow> json \<Rightarrow> int option" where
  "int4 rd v =
     (case rd v of
        None \<Rightarrow> None
      | Some n \<Rightarrow> if - (2 ^ 31) \<le> n \<and> n < 2 ^ 31 then Some n else None)"

definition known_columns :: "string list \<Rightarrow> row \<Rightarrow> db_error + unit" where
  "known_columns cols r =
     (case find (\<lambda>k. k \<notin> set cols) (map fst r) of
        None \<Rightarrow> Inr ()
      | Some k \<Rightarrow> Inl (Undefined_column k))"

definition cast_analysis :: "coercion \<Rightarrow> uuid \<Rightarrow> timestamp \<Rightarrow> row \<Rightarrow> db_error + analyses_row" where
  "cast_analysis pg i t r =
     and_then (known_columns
        [''id'', ''user_id'', ''code_snippet'', ''language'', ''file_name'', ''summary'',
         ''optimized_code'', ''issues_count'', ''created_at''] r) (\<lambda>_.
     and_then (col_default (as_str pg) i r ''id'') (\<lambda>pk.
     and_then (col_not_null (as_str pg) r ''user_id'') (\<lambda>u.
     and_then (col_not_null (as_str pg) r ''code_snippet'') (\<lambda>cs.
     and_then (col_not_null (as_str pg) r ''language'') (\<lambda>lg.
     and_then (col_nullable (as_str pg) None r ''file_name'') (\<lambda>fn.
     and_then (col_nullable (as_str pg) None r ''summary'') (\<lambda>sm.
     and_then (col_nullable (as_str pg) None r ''optimized_code'') (\<lambda>oc.
     and_then (col_nullable (int4 (as_int pg)) (Some 0) r ''issues_count'') (\<lambda>ic.
     and_then (col_default (as_time pg) t r ''created_at'') (\<lambda>ct.
       Inr \<lparr>a_id = pk, a_user_id = u, a_code_snippet = cs, a_language = lg,
            a_file_name = fn, a_summary = sm, a_optimized_code = oc,
            a_issues_count = ic, a_created_at = ct\<rparr>))))))))))"

definition cast_result :: "coercion \<Rightarrow> uuid \<Rightarrow> timestamp \<Rightarrow> row \<Rightarrow> db_error + results_row" where
  "cast_result pg i t r =
     and_then (known_columns
        [''id'', ''analysis_id'', ''issue_type'', ''severity'', ''title'', ''description'',
         ''line_number'', ''suggestion'', ''created_at''] r) (\<lambda>_.
     and_then (col_default (as_str pg) i r ''id'') (\<lambda>pk.
     and_then (col_not_null (as_str pg) r ''analysis_id'') (\<lambda>aid.
     and_then (col_not_null (as_str pg) r ''issue_type'') (\<lambda>it.
     and_then (col_not_null (as_str pg) r ''severity'') (\<lambda>sv.
     and_then (col_not_null (as_str pg) r ''title'') (\<lambda>ti.
     and_then (col_not_null (as_str pg) r ''description'') (\<lambda>de.
     and_then (col_nullable (int4 (as_int pg)) None r ''line_number'') (\<lambda>ln.
     and_then (col_nullable (as_str pg) None r ''suggestion'') (\<lambda>sg.
     and_then (col_default (as_time pg) t r ''created_at'') (\<lambda>ct.
       Inr \<lparr>r_id = pk, r_analysis_id = aid, r_issue_type = it, r_severity = sv,
            r_title = ti, r_description = de, r_line_number = ln,
            r_suggestion = sg, r_created_at = ct\<rparr>))))))))))"

section \<open>Statements\<close>

definition insert_analyses ::
  "coercion \<Rightarrow> outcome \<Rightarrow> row \<Rightarrow> store \<Rightarrow> analyses_row list py \<times> store" where
  "insert_analyses pg oc r s =
     (if \<not> executes oc then (answer oc [], s)
      else case cast_analysis pg (fresh oc 0) (clock oc) r of
        Inl e \<Rightarrow> (Inl (APIError e), s)
      | Inr new \<Rightarrow>
          if a_id new \<in> set (map a_id (analyses s))
          then (Inl (APIError (Unique_violation ''analyses_pkey'')), s)
          else (answer oc [new], s\<lparr>analyses := analyses s @ [new]\<rparr>))"

definition insert_results ::
  "coercion \<Rightarrow> outcome \<Rightarrow> row list \<Rightarrow> store \<Rightarrow> results_row list py \<times> store" where
  "insert_results pg oc rs s =
     (if \<not> executes oc then (answer oc [], s)
      else case traverse (\<lambda>(k, r). cast_result pg (fresh oc k) (clock oc) r) (enumerate 0 rs) of
        Inl e \<Rightarrow> (Inl (APIError e), s)
      | Inr new \<Rightarrow>
          if \<not> distinct (map r_id new @ map r_id (analysis_results s))
          then (Inl (APIError (Unique_violation ''analysis_results_pkey'')), s)
          else if \<not> set (map r_analysis_id new) \<subseteq> set (map a_id (analyses s))
          then (Inl (APIError (Foreign_key_violation ''analysis_id'')), s)
          else (answer oc new, s\<lparr>analysis_results := analysis_results s @ new\<rparr>))"

definition select_history :: "outcome \<Rightarrow> string \<Rightarrow> store \<Rightarrow> analyses_row list py" where
  "select_history oc user s =
     (if \<not> executes oc then answer oc []
      else answer oc (sort_desc a_created_at (filter (\<lambda>r. a_user_id r = user) (analyses s))))"

section \<open>A sample store\<close>

text \<open>
  The closed instances run the statements on a store that holds one analysis of
  user \<open>u1\<close>, with a payload row that has every required column and one that
  lacks only its \<open>title\<close>; and the selects on a store with two analyses of
  \<open>u1\<close> and, between them in time, one of \<open>u2\<close>.
\<close>

abbreviation sample_analysis :: analyses_row where
  "sample_analysis \<equiv>
     \<lparr>a_id = ''a1'', a_user_id = ''u1'', a_code_snippet = ''x = 1'', a_language = ''python'',
      a_file_name = None, a_summary = None, a_optimized_code = None,
      a_issues_count = Some 0, a_created_at = 5\<rparr>"

abbreviation sample_store :: store where
  "sample_store \<equiv> \<lparr>analyses = [sample_analysis], analysis_results = []\<rparr>"

abbreviation later_analysis :: analyses_row where
  "later_analysis \<equiv>
     \<lparr>a_id = ''a3'', a_user_id = ''u1'', a_code_snippet = ''y = 2'', a_language = ''python'',
      a_file_name = None, a_summary = None, a_optimized_code = None,
      a_issues_count = Some 0, a_created_at = 7\<rparr>"

abbreviation other_analysis :: analyses_row where
  "other_analysis \<equiv>
     \<lparr>a_id = ''a2'', a_user_id = ''u2'', a_code_snippet = ''x = 1'', a_language = ''python'',
      a_file_name = None, a_summary = None, a_optimized_code = None,
      a_issues_count = Some 0, a_created_at = 6\<rparr>"

abbreviation busy_store :: store where
  "busy_store \<equiv>
     \<lparr>analyses = [sample_analysis, other_analysis, later_analysis], analysis_results = []\<rparr>"

abbreviation complete_row :: row where
  "complete_row \<equiv>
     [(''analysis_id'', JStr ''a1''), (''issue_type'', JStr ''style''), (''severity'', JStr ''low''),
      (''title'', JStr ''t''), (''description'', JStr ''d'')]"

abbreviation untitled_row :: row where
  "untitled_row \<equiv>
     [(''analysis_id'', JStr ''a1''), (''issue_type'', JStr ''bug''), (''severity'', JStr ''high''),
      (''description'', JStr ''d2'')]"

section \<open>Integrity\<close>

definition store_ok :: "store \<Rightarrow> bool" where
  "store_ok s \<longleftrightarrow>
     distinct (map a_id (analyses s)) \<and>
     distinct (map r_id (analysis_results s)) \<and>
     set (map r_analysis_id (analysis_results s)) \<subseteq> set (map a_id (analyses s))"

definition chronological :: "store \<Rightarrow> bool" where
  "chronological s \<longleftrightarrow> sorted (map a_created_at (analyses s))"

text \<open>\<open>extends s s'\<close>: \<open>s'\<close> is \<open>s\<close> with rows appended; no row was changed or removed.\<close>

definition extends :: "store \<Rightarrow> store \<Rightarrow> bool" where
  "extends s s' \<longleftrightarrow>
     prefix (analyses s) (analyses s') \<and> prefix (analysis_results s) (analysis_results s')"

section \<open>Facts about outcomes and columns\<close>

lemma empty_store_simps [simp]:
  "analyses empty_store = []" "analysis_results empty_store = []"
  by (simp_all add: empty_store_def)

lemma store_ok_empty [simp]: "store_ok empty_store"
  by (simp add: store_ok_def)

lemma chronological_empty [simp]: "chronological empty_store"
  by (simp add: chronological_def)

lemma answer_cases: "answer oc rows = Inr ys \<Longrightarrow> ys = [] \<or> ys = rows"
  by (auto simp: answer_def split: reply.splits)

lemma answer_served [simp]: "answer (served ids t) rows = Inr rows"
  by (simp add: answer_def served_def)

lemma answer_unreachable [simp]: "answer (unreachable e) rows = Inl e"
  by (simp add: answer_def unreachable_def)

lemma served_simps [simp]:
  "executes (served ids t)" "reply (served ids t) = Data"
  "fresh (served ids t) = ids" "clock (served ids t) = t"
  by (simp_all add: served_def)

lemma unreachable_simps [simp]:
  "\<not> executes (unreachable e)" "reply (unreachable e) = Raise e"
  by (simp_all add: unreachable_def)

lemma known_columns_eq_Inr: "known_columns cols r = Inr u \<longleftrightarrow> set (map fst r) \<subseteq> set cols"
  by (fastforce simp: known_columns_def find_None_iff split: option.splits dest!: find_SomeD)

lemma col_not_null_eq_Inr:
  "col_not_null rd r k = Inr x \<longleftrightarrow> (\<exists>v. map_of r k = Some v \<and> v \<noteq> JNull \<and> rd v = Some x)"
  by (auto simp: col_not_null_def split: option.splits json.splits)

lemma col_nullable_eq_Inr:
  "col_nullable rd d r k = Inr x \<longleftrightarrow>
     (case map_of r k of
        None \<Rightarrow> x = d
      | Some v \<Rightarrow> if v = JNull then x = None else x \<noteq> None \<and> rd v = x)"
  by (auto simp: col_nullable_def split: option.splits json.splits)

lemma col_default_eq_Inr:
  "col_default rd d r k = Inr x \<longleftrightarrow>
     (case map_of r k of None \<Rightarrow> x = d | Some v \<Rightarrow> v \<noteq> JNull \<and> rd v = Some x)"
  by (auto simp: col_default_def split: option.splits json.splits)

lemma col_default_absent [simp]: "map_of r k = None \<Longrightarrow> col_default rd d r k = Inr d"
  by (simp add: col_default_def)

lemma int4_eq_Some: "int4 rd v = Some n \<longleftrightarrow> rd v = Some n \<and> - (2 ^ 31) \<le> n \<and> n < 2 ^ 31"
  by (auto simp: int4_def split: option.splits)

lemma int4_out_of_range: "rd v = Some n \<Longrightarrow> 2 ^ 31 \<le> n \<or> n < - (2 ^ 31) \<Longrightarrow> int4 rd v = None"
  by (auto simp: int4_def)

lemma col_not_null_JNull:
  "map_of r k = Some JNull \<Longrightarrow> col_not_null rd r k = Inl (Not_null_violation k)"
  by (simp add: col_not_null_def)

lemma col_not_null_missing:
  "map_of r k = None \<Longrightarrow> col_not_null rd r k = Inl (Not_null_violation k)"
  by (simp add: col_not_null_def)

lemma col_not_null_str [simp]:
  "lawful pg \<Longrightarrow> map_of r k = Some (JStr x) \<Longrightarrow> col_not_null (as_str pg) r k = Inr x"
  by (simp add: col_not_null_eq_Inr)

lemma cast_analysis_ids:
  assumes "cast_analysis pg i t r = Inr new"
  shows "(map_of r ''id'' = None \<longrightarrow> a_id new = i) \<and>
         (map_of r ''created_at'' = None \<longrightarrow> a_created_at new = t)"
  using assms by (auto simp: cast_analysis_def and_then_eq_Inr)

lemma cast_result_ids:
  assumes "cast_result pg i t r = Inr new"
  shows "(map_of r ''id'' = None \<longrightarrow> r_id new = i) \<and>
         (map_of r ''created_at'' = None \<longrightarrow> r_created_at new = t)"
  using assms by (auto simp: cast_result_def and_then_eq_Inr)

lemma insert_analyses_frame [frame]:
  "analysis_results (snd (insert_analyses pg oc r s)) = analysis_results s"
  by (simp add: insert_analyses_def split: sum.splits)

lemma insert_results_frame [frame]:
  "analyses (snd (insert_results pg oc rs s)) = analyses s"
  by (simp add: insert_results_def split: sum.splits)

lemma insert_analyses_cases:
  "insert_analyses pg oc r s = (res, s') \<Longrightarrow>
     s' = s \<and> (res = Inr [] \<or> \<not> returns res) \<or>
     (\<exists>new. executes oc \<and> cast_analysis pg (fresh oc 0) (clock oc) r = Inr new \<and>
            a_id new \<notin> set (map a_id (analyses s)) \<and>
            s' = s\<lparr>analyses := analyses s @ [new]\<rparr> \<and> res = answer oc [new])"
  by (auto simp: insert_analyses_def answer_def split: sum.splits if_splits reply.splits)

lemma insert_results_cases:
  "insert_results pg oc rs s = (res, s') \<Longrightarrow>
     s' = s \<and> (res = Inr [] \<or> \<not> returns res) \<or>
     (\<exists>new. executes oc \<and>
        traverse (\<lambda>(k, r). cast_result pg (fresh oc k) (clock oc) r) (enumerate 0 rs) = Inr new \<and>
        distinct (map r_id new @ map r_id (analysis_results s)) \<and>
        set (map r_analysis_id new) \<subseteq> set (map a_id (analyses s)) \<and>
        s' = s\<lparr>analysis_results := analysis_results s @ new\<rparr> \<and> res = answer oc new)"
  by (auto simp: insert_results_def answer_def split: sum.splits if_splits reply.splits)

lemma insert_analyses_store_ok [inv_keep]:
  "store_ok s \<Longrightarrow> store_ok (snd (insert_analyses pg oc r s))"
  by (cases "insert_analyses pg oc r s") (auto dest!: insert_analyses_cases simp: store_ok_def; blast)

lemma insert_results_store_ok [inv_keep]:
  "store_ok s \<Longrightarrow> store_ok (snd (insert_results pg oc rs s))"
  by (cases "insert_results pg oc rs s") (auto dest!: insert_results_cases simp: store_ok_def; blast)

lemma select_history_rows:
  "select_history oc u s = Inr rows \<Longrightarrow>
     rows = [] \<or> rows = sort_desc a_created_at (filter (\<lambda>r. a_user_id r = u) (analyses s))"
  by (auto simp: select_history_def dest: answer_cases split: if_splits)

lemma select_history_served [simp]:
  "select_history (served ids t) u s =
     Inr (sort_desc a_created_at (filter (\<lambda>r. a_user_id r = u) (analyses s)))"
  by (simp add: select_history_def)

lemma select_history_chronological:
  "chronological s \<Longrightarrow>
     sort_desc a_created_at (filter (\<lambda>r. a_user_id r = u) (analyses s)) =
     rev (filter (\<lambda>r. a_user_id r = u) (analyses s))"
  by (simp add: chronological_def sort_desc_sorted_input sorted_filter)

lemma insert_analyses_chronological:
  "chronological s \<Longrightarrow> \<forall>r\<in>set (analyses s). a_created_at r \<le> clock oc \<Longrightarrow>
     map_of r ''created_at'' = None \<Longrightarrow> chronological (snd (insert_analyses pg oc r s))"
  by (cases "insert_analyses pg oc r s")
     (auto dest!: insert_analyses_cases cast_analysis_ids simp: chronological_def sorted_append)

section \<open>Statements only append\<close>

lemma extends_refl [simp]: "extends s s"
  by (simp add: extends_def)

lemma extends_trans: "extends s t \<Longrightarrow> extends t u \<Longrightarrow> extends s u"
  by (auto simp: extends_def)

lemma insert_analyses_extends: "insert_analyses pg oc r s = (res, s') \<Longrightarrow> extends s s'"
  by (auto dest!: insert_analyses_cases simp: extends_def)

lemma insert_results_extends: "insert_results pg oc rs s = (res, s') \<Longrightarrow> extends s s'"
  by (auto dest!: insert_results_cases simp: extends_def)

lemma insert_analyses_ok: "insert_analyses pg oc r s = (res, s') \<Longrightarrow> store_ok s \<Longrightarrow> store_ok s'"
  using insert_analyses_store_ok [of s pg oc r] by simp

lemma insert_results_ok: "insert_results pg oc rs s = (res, s') \<Longrightarrow> store_ok s \<Longrightarrow> store_ok s'"
  using insert_results_store_ok [of s pg oc rs] by simp

lemma insert_results_parent: "insert_results pg oc rs s = (res, s') \<Longrightarrow> analyses s' = analyses s"
  using insert_results_frame [of pg oc rs s] by simp

lemma insert_analyses_children:
  "insert_analyses pg oc r s = (res, s') \<Longrightarrow> analysis_results s' = analysis_results s"
  using insert_analyses_frame [of pg oc r s] by simp

section \<open>Facts about whole rows\<close>

lemma cast_analysis_eq_Inr:
  "cast_analysis pg i t r = Inr row \<longleftrightarrow>
     set (map fst r) \<subseteq> {''id'', ''user_id'', ''code_snippet'', ''language'', ''file_name'',
         ''summary'', ''optimized_code'', ''issues_count'', ''created_at''} \<and>
     col_default (as_str pg) i r ''id'' = Inr (a_id row) \<and>
     col_not_null (as_str pg) r ''user_id'' = Inr (a_user_id row) \<and>
     col_not_null (as_str pg) r ''code_snippet'' = Inr (a_code_snippet row) \<and>
     col_not_null (as_str pg) r ''language'' = Inr (a_language row) \<and>
     col_nullable (as_str pg) None r ''file_name'' = Inr (a_file_name row) \<and>
     col_nullable (as_str pg) None r ''summary'' = Inr (a_summary row) \<and>
     col_nullable (as_str pg) None r ''optimized_code'' = Inr (a_optimized_code row) \<and>
     col_nullable (int4 (as_int pg)) (Some 0) r ''issues_count'' = Inr (a_issues_count row) \<and>
     col_default (as_time pg) t r ''created_at'' = Inr (a_created_at row)"
  unfolding cast_analysis_def and_then_eq_Inr known_columns_eq_Inr
  by (cases row) auto

lemma cast_result_eq_Inr:
  "cast_result pg i t r = Inr row \<longleftrightarrow>
     set (map fst r) \<subseteq> {''id'', ''analysis_id'', ''issue_type'', ''severity'', ''title'',
         ''description'', ''line_number'', ''suggestion'', ''created_at''} \<and>
     col_default (as_str pg) i r ''id'' = Inr (r_id row) \<and>
     col_not_null (as_str pg) r ''analysis_id'' = Inr (r_analysis_id row) \<and>
     col_not_null (as_str pg) r ''issue_type'' = Inr (r_issue_type row) \<and>
     col_not_null (as_str pg) r ''severity'' = Inr (r_severity row) \<and>
     col_not_null (as_str pg) r ''title'' = Inr (r_title row) \<and>
     col_not_null (as_str pg) r ''description'' = Inr (r_description row) \<and>
     col_nullable (int4 (as_int pg)) None r ''line_number'' = Inr (r_line_number row) \<and>
     col_nullable (as_str pg) None r ''suggestion'' = Inr (r_suggestion row) \<and>
     col_default (as_time pg) t r ''created_at'' = Inr (r_created_at row)"
  unfolding cast_result_def and_then_eq_Inr known_columns_eq_Inr
  by (cases row) auto

lemma insert_analyses_data:
  assumes "insert_analyses pg oc p s = (Inr (r # rs), s')"
  shows "rs = [] \<and> cast_analysis pg (fresh oc 0) (clock oc) p = Inr r \<and>
         analyses s' = analyses s @ [r] \<and> analysis_results s' = analysis_results s"
  using assms by (auto dest!: insert_analyses_cases answer_cases [OF sym])

lemma insert_analyses_length:
  "insert_analyses pg oc p s = (res, s') \<Longrightarrow> length (analyses s') \<le> Suc (length (analyses s))"
  by (auto dest!: insert_analyses_cases)

lemma insert_results_not_executed:
  "\<not> executes oc \<Longrightarrow> insert_results pg oc rs s = (answer oc [], s)"
  by (simp add: insert_results_def)

lemma insert_analyses_not_executed:
  "\<not> executes oc \<Longrightarrow> insert_analyses pg oc r s = (answer oc [], s)"
  by (simp add: insert_analyses_def)

text \<open>The definitions a closed instance unfolds when it is evaluated.\<close>

lemmas store_eval =
  insert_analyses_def insert_results_def select_history_def cast_analysis_def cast_result_def
  known_columns_def col_not_null_def col_nullable_def col_default_def int4_def answer_def
  served_def unreachable_def
  empty_store_def strict_def sort_desc_def

lemma cast_result_not_null:
  assumes "cast_result pg i t r = Inr row"
    and "k \<in> {''analysis_id'', ''issue_type'', ''severity'', ''title'', ''description''}"
  shows "\<exists>v. map_of r k = Some v \<and> v \<noteq> JNull"
  using assms by (auto simp: cast_result_eq_Inr col_not_null_eq_Inr)

lemma cast_analysis_not_null:
  assumes "cast_analysis pg i t r = Inr row"
    and "k \<in> {''user_id'', ''code_snippet'', ''language''}"
  shows "\<exists>v. map_of r k = Some v \<and> v \<noteq> JNull"
  using assms by (auto simp: cast_analysis_eq_Inr col_not_null_eq_Inr)

lemma traverse_enumerate_member:
  assumes "traverse (\<lambda>(k, x). f k x) (enumerate n xs) = Inr ys" and "x \<in> set xs"
  shows "\<exists>k y. f k x = Inr y"
  using assms
proof (induction xs arbitrary: n ys)
  case (Cons a xs)
  then show ?case by (auto simp: and_then_eq_Inr)
qed simp

lemma insert_results_all_cast:
  assumes "insert_results pg oc rs s = (res, s')" and "s' \<noteq> s" and "r \<in> set rs"
  shows "\<exists>k row. cast_result pg (fresh oc k) (clock oc) r = Inr row"
proof -
  from assms(1,2) obtain new where
    "traverse (\<lambda>(k, r). cast_result pg (fresh oc k) (clock oc) r) (enumerate 0 rs) = Inr new"
    by (auto dest!: insert_results_cases)
  from traverse_enumerate_member [OF this assms(3)] show ?thesis .
qed

lemma insert_results_new:
  assumes "insert_results pg oc rs s = (res, s')"
    and "analysis_results s' \<noteq> analysis_results s"
  obtains new where "analysis_results s' = analysis_results s @ new" "analyses s' = analyses s"
    and "list_all2 (\<lambda>kr row. cast_result pg (fresh oc (fst kr)) (clock oc) (snd kr) = Inr row)
           (enumerate 0 rs) new"
  using assms by (auto dest!: insert_results_cases simp: traverse_eq_Inr case_prod_unfold)

lemma list_all2_enumerate:
  assumes "list_all2 (\<lambda>kr row. P (fst kr) (snd kr) row) (enumerate n rs) new"
    and "list_all2 Q xs rs"
    and "\<And>k x r row. Q x r \<Longrightarrow> P k r row \<Longrightarrow> R x row"
  shows "list_all2 R xs new"
  using assms(2,1)
proof (induction xs rs arbitrary: n new rule: list_all2_induct)
  case (Cons x xs r rs)
  then show ?case by (auto simp: list_all2_Cons1 intro: assms(3))
qed simp

lemma insert_results_uncastable:
  assumes "r \<in> set rs" and "\<And>i t row. cast_result pg i t r \<noteq> Inr row"
  shows "snd (insert_results pg oc rs s) = s"
proof (rule ccontr)
  assume "snd (insert_results pg oc rs s) \<noteq> s"
  with assms(1) obtain i row where "cast_result pg (fresh oc i) (clock oc) r = Inr row"
    by (metis insert_results_all_cast prod.collapse)
  with assms(2) show False by blast
qed

lemma cast_result_null:
  assumes "k \<in> {''analysis_id'', ''issue_type'', ''severity'', ''title'', ''description''}"
    and "dict_get r k JNull = JNull"
  shows "cast_result pg i t r \<noteq> Inr row"
  using cast_result_not_null [of pg i t r row k] assms by (auto simp: dict_get_def)

section \<open>Properties of the statements\<close>

text \<open>
  C25. \<open>NOT NULL\<close> on a bulk insert: if one row of the payload lacks a value for
  \<open>title\<close>, \<open>description\<close>, \<open>severity\<close>, \<open>issue_type\<close> or \<open>analysis_id\<close>
  (the key is absent or bound to \<open>null\<close>), no row of the payload is stored.
\<close>

theorem insert_results_not_null:
  assumes "r \<in> set rs"
    and "k \<in> {''analysis_id'', ''issue_type'', ''severity'', ''title'', ''description''}"
    and "dict_get r k JNull = JNull"
  shows "snd (insert_results pg oc rs s) = s"
  using assms(1) by (rule insert_results_uncastable) (rule cast_result_null [OF assms(2,3)])

lemma complete_row_stored:
  "snd (insert_results strict (served (\<lambda>_. ''r1'') 6) [complete_row] sample_store) =
     \<lparr>analyses = [sample_analysis],
      analysis_results = [\<lparr>r_id = ''r1'', r_analysis_id = ''a1'', r_issue_type = ''style'',
        r_severity = ''low'', r_title = ''t'', r_description = ''d'', r_line_number = None,
        r_suggestion = None, r_created_at = 6\<rparr>]\<rparr>"
  by (simp add: store_eval)

theorem insert_results_not_null_witness:
  "snd (insert_results strict (served (\<lambda>k. if k = 0 then ''r1'' else ''r2'') 6)
      [complete_row, untitled_row] sample_store) = sample_store \<and>
   analysis_results (snd (insert_results strict (served (\<lambda>_. ''r1'') 6) [complete_row]
      sample_store)) \<noteq> []"
  using insert_results_not_null [of untitled_row "[complete_row, untitled_row]" "''title''" strict
      "served (\<lambda>k. if k = 0 then ''r1'' else ''r2'') 6" sample_store]
  by (simp add: complete_row_stored)

end
