(* ===== verification/Services.thy ===== *)
theory Services
  imports Store
begin

text \<open>
  \<open>services.py\<close>: the class \<open>SupabaseService\<close>. Its constructor reads two
  environment variables and raises \<open>ValueError\<close> when one is unset or empty;
  \<open>save_analysis\<close> builds the payload of the parent row from the request and
  the raw model output, inserts it, and then inserts one result row per issue;
  \<open>get_history\<close> selects a user's rows, newest first. Each function takes the
  outcome of every store call it makes and the \<open>world\<close> (the database and the
  lines printed so far) and returns the value or exception of the Python call
  with the new world. The library call \<open>create_client\<close> is taken to succeed.
\<close>

section \<open>The world seen from the service\<close>

datatype log_line =
    Warning_missing string
  | Warning_no_data
  | Supabase_error_analyses exn
  | Supabase_error_results exn
  | Error_fetching_history exn
  | Analysis_saved string
  | Failed_to_save exn
  | Error_line exn

record world =
  db :: store
  out :: "log_line list"

type_synonym environ = "string \<Rightarrow> string option"

definition say :: "log_line \<Rightarrow> world \<Rightarrow> world" where
  "say l w = w\<lparr>out := out w @ [l]\<rparr>"

definition unset :: "string option \<Rightarrow> bool" where
  "unset v = (case v of None \<Rightarrow> True | Some s \<Rightarrow> s = [])"

section \<open>SupabaseService\<close>

definition init_service :: "environ \<Rightarrow> unit py" where
  "init_service env =
     (if unset (env ''SUPABASE_URL'') \<or> unset (env ''SUPABASE_KEY'')
      then Inl (ValueError ''SUPABASE_URL and SUPABASE_KEY must be set in environment variables'')
      else Inr ())"

definition analysis_payload :: "string \<Rightarrow> code_analysis_request \<Rightarrow> json \<Rightarrow> row py" where
  "analysis_payload user_id request analysis_data =
     and_then (py_get analysis_data ''summary'' JNull) (\<lambda>sm.
     and_then (py_get analysis_data ''optimized_code'' JNull) (\<lambda>oc.
     and_then (py_get analysis_data ''issues_count'' (JInt 0)) (\<lambda>ic.
       Inr [(''user_id'', JStr user_id),
            (''code_snippet'', JStr (code request)),
            (''language'', JStr (language request)),
            (''file_name'', opt_json JStr (file_name request)),
            (''summary'', sm),
            (''optimized_code'', oc),
            (''issues_count'', ic)])))"

definition result_payload :: "uuid \<Rightarrow> json \<Rightarrow> row py" where
  "result_payload analysis_id issue_v =
     and_then (py_get issue_v ''title'' JNull) (\<lambda>ti.
     and_then (py_get issue_v ''description'' JNull) (\<lambda>de.
     and_then (py_get issue_v ''severity'' JNull) (\<lambda>sv.
     and_then (py_get issue_v ''issue_type'' JNull) (\<lambda>it.
     and_then (py_get issue_v ''line_number'' JNull) (\<lambda>ln.
     and_then (py_get issue_v ''suggestion'' JNull) (\<lambda>sg.
       Inr [(''analysis_id'', JStr analysis_id),
            (''title'', ti),
            (''description'', de),
            (''severity'', sv),
            (''issue_type'', it),
            (''line_number'', ln),
            (''suggestion'', sg)]))))))"

text \<open>Step 3 of \<open>save_analysis\<close>: the issue rows, once the parent row has an id.\<close>

definition save_results :: "coercion \<Rightarrow> outcome \<Rightarrow> uuid \<Rightarrow> json \<Rightarrow> world \<Rightarrow> uuid py \<times> world" where
  "save_results pg oc analysis_id analysis_data w =
     (case py_get analysis_data ''issues'' (JArr []) of
        Inl e \<Rightarrow> (Inl e, w)
      | Inr issues_v \<Rightarrow>
          if py_bool issues_v then
            (case and_then (py_iter issues_v) (traverse (result_payload analysis_id)) of
               Inl e \<Rightarrow> (Inl e, w)
             | Inr results_payload \<Rightarrow>
                 (case insert_results pg oc results_payload (db w) of
                    (Inl e, s) \<Rightarrow> (Inr analysis_id, say (Supabase_error_results e) (w\<lparr>db := s\<rparr>))
                  | (Inr _, s) \<Rightarrow> (Inr analysis_id, w\<lparr>db := s\<rparr>)))
          else (Inr analysis_id, w))"

definition save_analysis ::
  "coercion \<Rightarrow> outcome \<Rightarrow> outcome \<Rightarrow> string \<Rightarrow> code_analysis_request \<Rightarrow> json \<Rightarrow> world
     \<Rightarrow> uuid py \<times> world" where
  "save_analysis pg oc1 oc2 user_id request analysis_data w =
     (case analysis_payload user_id request analysis_data of
        Inl e \<Rightarrow> (Inl e, w)
      | Inr payload \<Rightarrow>
          (case insert_analyses pg oc1 payload (db w) of
             (Inl e, s) \<Rightarrow> (Inl e, say (Supabase_error_analyses e) (w\<lparr>db := s\<rparr>))
           | (Inr [], s) \<Rightarrow> (Inr ''error-saving-db'', say Warning_no_data (w\<lparr>db := s\<rparr>))
           | (Inr (r # _), s) \<Rightarrow> save_results pg oc2 (a_id r) analysis_data (w\<lparr>db := s\<rparr>)))"

definition get_history :: "outcome \<Rightarrow> string \<Rightarrow> world \<Rightarrow> analyses_row list \<times> world" where
  "get_history oc user_id w =
     (case select_history oc user_id (db w) of
        Inl e \<Rightarrow> ([], say (Error_fetching_history e) w)
      | Inr data \<Rightarrow> (data, w))"

text \<open>
  What it means that a row of \<open>analysis_results\<close> stores an issue of the
  reply for the analysis \<open>aid\<close>: the issue is an object, the row refers to
  \<open>aid\<close>, and its six columns are the issue's fields as the store reads them.
\<close>

definition issue_row :: "coercion \<Rightarrow> uuid \<Rightarrow> json \<Rightarrow> results_row \<Rightarrow> bool" where
  "issue_row pg aid x r \<longleftrightarrow>
     (case x of
        JObj f \<Rightarrow>
          r_analysis_id r = aid \<and>
          col_not_null (as_str pg) f ''title'' = Inr (r_title r) \<and>
          col_not_null (as_str pg) f ''description'' = Inr (r_description r) \<and>
          col_not_null (as_str pg) f ''severity'' = Inr (r_severity r) \<and>
          col_not_null (as_str pg) f ''issue_type'' = Inr (r_issue_type r) \<and>
          col_nullable (int4 (as_int pg)) None f ''line_number'' = Inr (r_line_number r) \<and>
          col_nullable (as_str pg) None f ''suggestion'' = Inr (r_suggestion r)
      | _ \<Rightarrow> False)"

section \<open>Facts about the payloads\<close>

lemma say_simps [simp]: "db (say l w) = db w" "out (say l w) = out w @ [l]"
  by (simp_all add: say_def)

lemma init_service_eq_Inr:
  "init_service env = Inr u \<longleftrightarrow>
     (\<exists>url key. env ''SUPABASE_URL'' = Some url \<and> url \<noteq> [] \<and>
                env ''SUPABASE_KEY'' = Some key \<and> key \<noteq> [])"
  by (auto simp: init_service_def unset_def split: option.splits)

lemma init_service_raises:
  "init_service env = Inl e \<Longrightarrow>
     e = ValueError ''SUPABASE_URL and SUPABASE_KEY must be set in environment variables''"
  by (auto simp: init_service_def split: if_splits)

lemma analysis_payload_eq_Inr:
  "analysis_payload u req d = Inr p \<longleftrightarrow>
     (\<exists>kvs. d = JObj kvs \<and>
        p = [(''user_id'', JStr u), (''code_snippet'', JStr (code req)),
             (''language'', JStr (language req)), (''file_name'', opt_json JStr (file_name req)),
             (''summary'', dict_get kvs ''summary'' JNull),
             (''optimized_code'', dict_get kvs ''optimized_code'' JNull),
             (''issues_count'', dict_get kvs ''issues_count'' (JInt 0))])"
  by (cases d) (auto simp: analysis_payload_def)

lemma analysis_payload_eq_Inl:
  "analysis_payload u req d = Inl e \<longleftrightarrow> e = AttributeError \<and> (\<forall>kvs. d \<noteq> JObj kvs)"
  by (cases d) (auto simp: analysis_payload_def)

lemma result_payload_eq_Inr:
  "result_payload aid v = Inr p \<longleftrightarrow>
     (\<exists>kvs. v = JObj kvs \<and>
        p = [(''analysis_id'', JStr aid), (''title'', dict_get kvs ''title'' JNull),
             (''description'', dict_get kvs ''description'' JNull),
             (''severity'', dict_get kvs ''severity'' JNull),
             (''issue_type'', dict_get kvs ''issue_type'' JNull),
             (''line_number'', dict_get kvs ''line_number'' JNull),
             (''suggestion'', dict_get kvs ''suggestion'' JNull)])"
  by (cases v) (auto simp: result_payload_def)

lemma result_payload_eq_Inl:
  "result_payload aid v = Inl e \<longleftrightarrow> e = AttributeError \<and> (\<forall>kvs. v \<noteq> JObj kvs)"
  by (cases v) (auto simp: result_payload_def)

lemma save_results_elim [consumes 1, case_names not_a_dict no_issues loop_raises inserted]:
  assumes "save_results pg oc aid d w = (res, w')"
  obtains
    (not_a_dict) e where "py_get d ''issues'' (JArr []) = Inl e" "res = Inl e" "w' = w"
  | (no_issues) v where "py_get d ''issues'' (JArr []) = Inr v" "\<not> py_bool v"
      "res = Inr aid" "w' = w"
  | (loop_raises) v e where "py_get d ''issues'' (JArr []) = Inr v" "py_bool v"
      "and_then (py_iter v) (traverse (result_payload aid)) = Inl e" "res = Inl e" "w' = w"
  | (inserted) v rows r s where "py_get d ''issues'' (JArr []) = Inr v" "py_bool v"
      "and_then (py_iter v) (traverse (result_payload aid)) = Inr rows"
      "insert_results pg oc rows (db w) = (r, s)" "res = Inr aid"
      "w' = (case r of Inl e \<Rightarrow> say (Supabase_error_results e) (w\<lparr>db := s\<rparr>) | Inr _ \<Rightarrow> w\<lparr>db := s\<rparr>)"
  using assms
  by (auto simp: save_results_def split: sum.splits prod.splits if_splits)

lemma save_analysis_elim [consumes 1, case_names payload_raises insert_raises no_data parent_saved]:
  assumes "save_analysis pg oc1 oc2 u req d w = (res, w')"
  obtains
    (payload_raises) e where "analysis_payload u req d = Inl e" "res = Inl e" "w' = w"
  | (insert_raises) p e s where "analysis_payload u req d = Inr p"
      "insert_analyses pg oc1 p (db w) = (Inl e, s)" "res = Inl e"
      "w' = say (Supabase_error_analyses e) (w\<lparr>db := s\<rparr>)"
  | (no_data) p s where "analysis_payload u req d = Inr p"
      "insert_analyses pg oc1 p (db w) = (Inr [], s)" "res = Inr ''error-saving-db''"
      "w' = say Warning_no_data (w\<lparr>db := s\<rparr>)"
  | (parent_saved) p r rs s where "analysis_payload u req d = Inr p"
      "insert_analyses pg oc1 p (db w) = (Inr (r # rs), s)"
      "save_results pg oc2 (a_id r) d (w\<lparr>db := s\<rparr>) = (res, w')"
  using assms
  by (auto simp: save_analysis_def split: sum.splits prod.splits list.splits)

lemma save_results_extends:
  assumes "save_results pg oc aid d w = (res, w')"
  shows "extends (db w) (db w')"
  using assms
  by (cases rule: save_results_elim) (auto dest: insert_results_extends split: sum.splits)

lemma save_results_ok:
  assumes "save_results pg oc aid d w = (res, w')" and "store_ok (db w)"
  shows "store_ok (db w')"
  using assms
  by (cases rule: save_results_elim) (auto dest: insert_results_ok split: sum.splits)

lemma save_results_parent:
  assumes "save_results pg oc aid d w = (res, w')"
  shows "analyses (db w') = analyses (db w)"
  using assms
  by (cases rule: save_results_elim) (auto dest: insert_results_parent split: sum.splits)

lemma save_results_out:
  assumes "save_results pg oc aid d w = (res, w')"
  shows "prefix (out w) (out w')"
  using assms
  by (cases rule: save_results_elim) (auto split: sum.splits)

lemma save_results_returns:
  assumes "save_results pg oc aid d w = (Inr x, w')"
  shows "x = aid"
  using assms by (cases rule: save_results_elim) auto

lemma save_analysis_extends:
  assumes "save_analysis pg oc1 oc2 u req d w = (res, w')"
  shows "extends (db w) (db w')"
  using assms
proof (cases rule: save_analysis_elim)
  case (parent_saved p r rs s)
  from parent_saved(2) have "extends (db w) s" by (rule insert_analyses_extends)
  moreover from parent_saved(3) have "extends s (db w')"
    using save_results_extends by fastforce
  ultimately show ?thesis by (rule extends_trans)
qed (auto dest: insert_analyses_extends)

lemma save_analysis_ok:
  assumes "save_analysis pg oc1 oc2 u req d w = (res, w')" and "store_ok (db w)"
  shows "store_ok (db w')"
  using assms(1)
proof (cases rule: save_analysis_elim)
  case (parent_saved p r rs s)
  from parent_saved(2) assms(2) have "store_ok s" by (rule insert_analyses_ok)
  with parent_saved(3) show ?thesis
    using save_results_ok by fastforce
qed (use assms(2) in \<open>auto dest: insert_analyses_ok\<close>)

lemma save_analysis_out:
  assumes "save_analysis pg oc1 oc2 u req d w = (res, w')"
  shows "prefix (out w) (out w')"
  using assms
proof (cases rule: save_analysis_elim)
  case (parent_saved p r rs s)
  then show ?thesis using save_results_out by fastforce
qed auto

lemma get_history_db [frame]: "db (snd (get_history oc u w)) = db w"
  by (simp add: get_history_def split: sum.splits)

section \<open>Facts about the rows written\<close>

lemma cast_analysis_fields:
  assumes "lawful pg" and "cast_analysis pg i t p = Inr row"
    and "analysis_payload u req d = Inr p"
  shows "a_id row = i \<and> a_created_at row = t \<and> a_user_id row = u \<and>
         a_code_snippet row = code req \<and> a_language row = language req \<and>
         a_file_name row = file_name req"
proof -
  from assms(3) obtain kvs where p: "p =
      [(''user_id'', JStr u), (''code_snippet'', JStr (code req)),
       (''language'', JStr (language req)), (''file_name'', opt_json JStr (file_name req)),
       (''summary'', dict_get kvs ''summary'' JNull),
       (''optimized_code'', dict_get kvs ''optimized_code'' JNull),
       (''issues_count'', dict_get kvs ''issues_count'' (JInt 0))]"
    by (auto simp: analysis_payload_eq_Inr)
  from assms(2) have c: "col_not_null (as_str pg) p ''user_id'' = Inr (a_user_id row)"
    "col_not_null (as_str pg) p ''code_snippet'' = Inr (a_code_snippet row)"
    "col_not_null (as_str pg) p ''language'' = Inr (a_language row)"
    "col_nullable (as_str pg) None p ''file_name'' = Inr (a_file_name row)"
    "col_default (as_str pg) i p ''id'' = Inr (a_id row)"
    "col_default (as_time pg) t p ''created_at'' = Inr (a_created_at row)"
    by (simp_all add: cast_analysis_eq_Inr)
  from c(1) assms(1) have "a_user_id row = u" by (simp add: p col_not_null_eq_Inr)
  moreover from c(2) assms(1) have "a_code_snippet row = code req"
    by (simp add: p col_not_null_eq_Inr)
  moreover from c(3) assms(1) have "a_language row = language req"
    by (simp add: p col_not_null_eq_Inr)
  moreover from c(4) assms(1) have "a_file_name row = file_name req"
    by (cases "file_name req") (auto simp: p col_nullable_eq_Inr)
  moreover from c(5,6) have "a_id row = i" "a_created_at row = t" by (simp_all add: p)
  ultimately show ?thesis by simp
qed

lemma cast_analysis_count:
  assumes "lawful pg" and "cast_analysis pg i t p = Inr row"
    and "analysis_payload u req (JObj kvs) = Inr p"
    and "dict_get kvs ''issues_count'' (JInt 0) = JInt n"
  shows "a_issues_count row = Some n"
proof -
  from assms(2) have
    "col_nullable (int4 (as_int pg)) (Some 0) p ''issues_count'' = Inr (a_issues_count row)"
    by (simp add: cast_analysis_eq_Inr)
  with assms(1,3,4) show ?thesis
    by (auto simp: analysis_payload_eq_Inr col_nullable_eq_Inr int4_eq_Some)
qed

lemma save_analysis_saved:
  assumes "save_analysis pg oc1 oc2 u req d w = (Inr aid, w')" and "aid \<noteq> ''error-saving-db''"
  obtains p row where "analysis_payload u req d = Inr p"
    and "cast_analysis pg (fresh oc1 0) (clock oc1) p = Inr row"
    and "analyses (db w') = analyses (db w) @ [row]" and "a_id row = aid"
  using assms(1)
proof (cases rule: save_analysis_elim)
  case (parent_saved p r rs s)
  from parent_saved(2) have "cast_analysis pg (fresh oc1 0) (clock oc1) p = Inr r"
    and "analyses s = analyses (db w) @ [r]"
    by (auto dest: insert_analyses_data)
  moreover from parent_saved(3) have "aid = a_id r" by (rule save_results_returns)
  moreover from parent_saved(3) have "analyses (db w') = analyses s"
    using save_results_parent by fastforce
  ultimately show ?thesis using that parent_saved(1) by simp
qed (use assms(2) in auto)

lemma save_analysis_length:
  assumes "save_analysis pg oc1 oc2 u req d w = (res, w')"
  shows "length (analyses (db w')) \<le> Suc (length (analyses (db w)))"
  using assms
proof (cases rule: save_analysis_elim)
  case (parent_saved p r rs s)
  from parent_saved(3) have "analyses (db w') = analyses s"
    using save_results_parent by fastforce
  with parent_saved(2) show ?thesis by (auto dest: insert_analyses_length)
qed (auto dest: insert_analyses_length)

lemma get_history_rows:
  "fst (get_history oc u w) = [] \<or>
   fst (get_history oc u w) =
     sort_desc a_created_at (filter (\<lambda>r. a_user_id r = u) (analyses (db w)))"
  by (auto simp: get_history_def dest: select_history_rows split: sum.splits)

lemma get_history_served [simp]:
  "get_history (served ids t) u w =
     (sort_desc a_created_at (filter (\<lambda>r. a_user_id r = u) (analyses (db w))), w)"
  by (simp add: get_history_def)

lemmas services_eval =
  save_analysis_def save_results_def analysis_payload_def result_payload_def get_history_def
  init_service_def unset_def say_def

section \<open>Properties of save_analysis\<close>

text \<open>
  C4. Saving and reading back: when \<open>save_analysis\<close> returns an identifier
  other than its failure marker, exactly one row was appended to \<open>analyses\<close>;
  it carries that identifier, the caller's \<open>user_id\<close> and the request's
  \<open>code\<close>, \<open>language\<close> and \<open>file_name\<close>, and a served \<open>get_history\<close> for
  the same user returns it.
\<close>

theorem save_analysis_roundtrip:
  assumes "lawful pg"
    and "save_analysis pg oc1 oc2 u req d w = (Inr aid, w')"
    and "aid \<noteq> ''error-saving-db''"
  shows "\<exists>row. analyses (db w') = analyses (db w) @ [row] \<and> a_id row = aid \<and>
           a_user_id row = u \<and> a_code_snippet row = code req \<and>
           a_language row = language req \<and> a_file_name row = file_name req \<and>
           row \<in> set (fst (get_history (served ids t) u w'))"
proof -
  from assms(2,3) obtain p row where "analysis_payload u req d = Inr p"
    and "cast_analysis pg (fresh oc1 0) (clock oc1) p = Inr row"
    and "analyses (db w') = analyses (db w) @ [row]" and "a_id row = aid"
    by (rule save_analysis_saved)
  with cast_analysis_fields [OF assms(1) this(2,1)] show ?thesis by simp
qed

lemma save_demo:
  "save_analysis strict (served (\<lambda>_. ''a1'') 5) (served (\<lambda>_. ''r1'') 5) ''u1''
      \<lparr>code = ''x = 1'', language = ''python'', file_name = None\<rparr> (JObj [])
      \<lparr>db = empty_store, out = []\<rparr> =
   (Inr ''a1'',
    \<lparr>db = \<lparr>analyses = [\<lparr>a_id = ''a1'', a_user_id = ''u1'', a_code_snippet = ''x = 1'',
              a_language = ''python'', a_file_name = None, a_summary = None,
              a_optimized_code = None, a_issues_count = Some 0, a_created_at = 5\<rparr>],
            analysis_results = []\<rparr>, out = []\<rparr>)"
  by (simp add: store_eval services_eval)

theorem save_analysis_roundtrip_witness:
  "\<exists>row. analyses (db (snd (save_analysis strict (served (\<lambda>_. ''a1'') 5)
      (served (\<lambda>_. ''r1'') 5) ''u1''
      \<lparr>code = ''x = 1'', language = ''python'', file_name = None\<rparr> (JObj [])
      \<lparr>db = empty_store, out = []\<rparr>))) = analyses empty_store @ [row] \<and> a_id row = ''a1'' \<and>
           a_user_id row = ''u1'' \<and> a_code_snippet row = ''x = 1'' \<and>
           a_language row = ''python'' \<and> a_file_name row = None"
  using save_analysis_roundtrip [OF lawful_strict save_demo, of "\<lambda>_. ''h''" 9]
  by (simp add: save_demo)

text \<open>
  C8. The count that is stored is the one the model reported about itself:
  when the analysis is saved and the model's object binds \<open>issues_count\<close> to
  an integer \<open>n\<close> (or omits it, which reads as 0), the new row has
  \<open>issues_count = n\<close>, whatever the number of issues in the object.
\<close>

theorem persisted_count_is_self_reported:
  assumes "lawful pg"
    and "save_analysis pg oc1 oc2 u req (JObj kvs) w = (Inr aid, w')"
    and "aid \<noteq> ''error-saving-db''"
    and "dict_get kvs ''issues_count'' (JInt 0) = JInt n"
  shows "a_issues_count (last (analyses (db w'))) = Some n"
proof -
  from assms(2,3) obtain p row where "analysis_payload u req (JObj kvs) = Inr p"
    and "cast_analysis pg (fresh oc1 0) (clock oc1) p = Inr row"
    and "analyses (db w') = analyses (db w) @ [row]"
    by (rule save_analysis_saved)
  with cast_analysis_count [OF assms(1) this(2,1) assms(4)] show ?thesis by simp
qed

lemma save_demo_issue:
  "save_analysis strict (served (\<lambda>_. ''a1'') 5) (served (\<lambda>_. ''r1'') 6) ''u1''
      \<lparr>code = ''x = 1'', language = ''python'', file_name = None\<rparr>
      (JObj [(''issues'', JArr [JObj [(''issue_type'', JStr ''style''), (''severity'', JStr ''low''),
          (''title'', JStr ''t''), (''description'', JStr ''d'')]])])
      \<lparr>db = empty_store, out = []\<rparr> =
   (Inr ''a1'',
    \<lparr>db = \<lparr>analyses = [\<lparr>a_id = ''a1'', a_user_id = ''u1'', a_code_snippet = ''x = 1'',
              a_language = ''python'', a_file_name = None, a_summary = None,
              a_optimized_code = None, a_issues_count = Some 0, a_created_at = 5\<rparr>],
            analysis_results = [\<lparr>r_id = ''r1'', r_analysis_id = ''a1'', r_issue_type = ''style'',
              r_severity = ''low'', r_title = ''t'', r_description = ''d'',
              r_line_number = None, r_suggestion = None, r_created_at = 6\<rparr>]\<rparr>, out = []\<rparr>)"
  by (simp add: store_eval services_eval)

theorem persisted_count_is_self_reported_witness:
  "length (analysis_results (db (snd (save_analysis strict (served (\<lambda>_. ''a1'') 5)
      (served (\<lambda>_. ''r1'') 6) ''u1'' \<lparr>code = ''x = 1'', language = ''python'', file_name = None\<rparr>
      (JObj [(''issues'', JArr [JObj [(''issue_type'', JStr ''style''), (''severity'', JStr ''low''),
          (''title'', JStr ''t''), (''description'', JStr ''d'')]])])
      \<lparr>db = empty_store, out = []\<rparr>)))) = 1 \<and>
   a_issues_count (last (analyses (db (snd (save_analysis strict (served (\<lambda>_. ''a1'') 5)
      (served (\<lambda>_. ''r1'') 6) ''u1'' \<lparr>code = ''x = 1'', language = ''python'', file_name = None\<rparr>
      (JObj [(''issues'', JArr [JObj [(''issue_type'', JStr ''style''), (''severity'', JStr ''low''),
          (''title'', JStr ''t''), (''description'', JStr ''d'')]])])
      \<lparr>db = empty_store, out = []\<rparr>))))) = Some 0"
  using persisted_count_is_self_reported [OF lawful_strict save_demo_issue, of 0]
  by (simp add: save_demo_issue)

text \<open>
  C17. The service never mutates or deletes a record: after \<open>save_analysis\<close>
  both tables are the tables before it with rows appended, at most one of
  them to \<open>analyses\<close>, and the lines printed before are still there, in
  order.
\<close>

theorem save_analysis_append_only:
  "extends (db w) (db (snd (save_analysis pg oc1 oc2 u req d w))) \<and>
   length (analyses (db (snd (save_analysis pg oc1 oc2 u req d w)))) \<le> Suc (length (analyses (db w))) \<and>
   prefix (out w) (out (snd (save_analysis pg oc1 oc2 u req d w)))"
  by (intro conjI save_analysis_extends [OF surjective_pairing]
      save_analysis_length [OF surjective_pairing] save_analysis_out [OF surjective_pairing])

text \<open>
  C20. A parent insert that comes back without rows is reported by a return
  value, never by an exception: if the store answers the first insert with an
  empty result, every value \<open>save_analysis\<close> returns is the marker
  \<open>error-saving-db\<close>; a warning is printed and no result row is written.
\<close>

theorem save_analysis_no_data:
  assumes "reply oc1 = Empty"
    and "save_analysis pg oc1 oc2 u req d w = (Inr x, w')"
  shows "x = ''error-saving-db'' \<and> out w' = out w @ [Warning_no_data] \<and>
         analysis_results (db w') = analysis_results (db w)"
  using assms(2)
proof (cases rule: save_analysis_elim)
  case (no_data p s)
  then show ?thesis by (auto dest: insert_analyses_children)
next
  case (parent_saved p r rs s)
  with assms(1) show ?thesis
    by (auto dest!: insert_analyses_cases simp: answer_def)
qed auto

lemma save_demo_empty:
  "save_analysis strict \<lparr>executes = False, reply = Empty, fresh = (\<lambda>_. []), clock = 0\<rparr>
      (served (\<lambda>_. ''r1'') 6) ''u1'' \<lparr>code = ''x = 1'', language = ''python'', file_name = None\<rparr>
      (JObj []) \<lparr>db = empty_store, out = []\<rparr> =
   (Inr ''error-saving-db'', \<lparr>db = empty_store, out = [Warning_no_data]\<rparr>)"
  by (simp add: store_eval services_eval)

theorem save_analysis_no_data_witness:
  "fst (save_analysis strict \<lparr>executes = False, reply = Empty, fresh = (\<lambda>_. []), clock = 0\<rparr>
      (served (\<lambda>_. ''r1'') 6) ''u1'' \<lparr>code = ''x = 1'', language = ''python'', file_name = None\<rparr>
      (JObj []) \<lparr>db = empty_store, out = []\<rparr>) = Inr ''error-saving-db''"
  using save_analysis_no_data [OF _ save_demo_empty] by (simp add: save_demo_empty)

lemma result_payload_keeps_null:
  assumes "result_payload aid (JObj f) = Inr p"
    and "k \<in> {''title'', ''description'', ''severity'', ''issue_type''}"
    and "dict_get f k JNull = JNull"
  shows "dict_get p k JNull = JNull"
  using assms by (auto simp: result_payload_eq_Inr)

lemma save_results_incomplete:
  assumes "save_results pg oc aid (JObj kvs) w = (res, w')"
    and "dict_get kvs ''issues'' (JArr []) = JArr xs"
    and "JObj f \<in> set xs"
    and "k \<in> {''title'', ''description'', ''severity'', ''issue_type''}"
    and "dict_get f k JNull = JNull"
  shows "db w' = db w"
  using assms(1)
proof (cases rule: save_results_elim)
  case (inserted v rows r s)
  from inserted(1) assms(2) have "v = JArr xs" by simp
  with inserted(3) have "traverse (result_payload aid) xs = Inr rows" by simp
  from traverse_member [OF this assms(3)] obtain p where p: "p \<in> set rows"
    and "result_payload aid (JObj f) = Inr p" by blast
  from this(2) assms(4,5) have "dict_get p k JNull = JNull" by (rule result_payload_keeps_null)
  with assms(4) have "\<And>i t row. cast_result pg i t p \<noteq> Inr row"
    by (intro cast_result_null [of k]) auto
  with p have "snd (insert_results pg oc rows (db w)) = db w" by (rule insert_results_uncastable)
  with inserted(4,6) show ?thesis by (auto split: sum.splits)
qed auto

text \<open>
  C11. One incomplete issue loses them all. If one issue of the model's object
  has no \<open>title\<close>, \<open>description\<close>, \<open>severity\<close> or \<open>issue_type\<close> (the key is
  absent or \<open>null\<close>), then \<open>save_analysis\<close> stores no issue of the analysis,
  the complete ones included, whatever the store answers; the table of
  results is as before.
\<close>

theorem incomplete_issue_stores_no_issue:
  assumes "save_analysis pg oc1 oc2 u req (JObj kvs) w = (res, w')"
    and "dict_get kvs ''issues'' (JArr []) = JArr xs"
    and "JObj f \<in> set xs"
    and "k \<in> {''title'', ''description'', ''severity'', ''issue_type''}"
    and "dict_get f k JNull = JNull"
  shows "analysis_results (db w') = analysis_results (db w)"
  using assms(1)
proof (cases rule: save_analysis_elim)
  case (parent_saved p r rs s)
  from save_results_incomplete [OF parent_saved(3) assms(2-5)] have "db w' = s" by simp
  with parent_saved(2) show ?thesis by (auto dest: insert_analyses_children)
qed (auto dest: insert_analyses_children)

lemma save_demo_incomplete:
  "save_analysis strict (served (\<lambda>_. ''a1'') 5) (served (\<lambda>_. ''r1'') 6) ''u1''
      \<lparr>code = ''x = 1'', language = ''python'', file_name = None\<rparr>
      (JObj [(''issues'', JArr [
         JObj [(''issue_type'', JStr ''style''), (''severity'', JStr ''low''),
               (''title'', JStr ''t''), (''description'', JStr ''d'')],
         JObj [(''issue_type'', JStr ''bug''), (''severity'', JStr ''high''),
               (''description'', JStr ''d2'')]])])
      \<lparr>db = empty_store, out = []\<rparr> =
   (Inr ''a1'',
    \<lparr>db = \<lparr>analyses = [\<lparr>a_id = ''a1'', a_user_id = ''u1'', a_code_snippet = ''x = 1'',
              a_language = ''python'', a_file_name = None, a_summary = None,
              a_optimized_code = None, a_issues_count = Some 0, a_created_at = 5\<rparr>],
            analysis_results = []\<rparr>,
     out = [Supabase_error_results (APIError (Not_null_violation ''title''))]\<rparr>)"
  by (simp add: store_eval services_eval)

theorem incomplete_issue_stores_no_issue_witness:
  "analysis_results (db (snd (save_analysis strict (served (\<lambda>_. ''a1'') 5)
      (served (\<lambda>_. ''r1'') 6) ''u1'' \<lparr>code = ''x = 1'', language = ''python'', file_name = None\<rparr>
      (JObj [(''issues'', JArr [
         JObj [(''issue_type'', JStr ''style''), (''severity'', JStr ''low''),
               (''title'', JStr ''t''), (''description'', JStr ''d'')],
         JObj [(''issue_type'', JStr ''bug''), (''severity'', JStr ''high''),
               (''description'', JStr ''d2'')]])])
      \<lparr>db = empty_store, out = []\<rparr>))) = analysis_results empty_store"
  using incomplete_issue_stores_no_issue [OF save_demo_incomplete, of _
      "[(''issue_type'', JStr ''bug''), (''severity'', JStr ''high''), (''description'', JStr ''d2'')]"
      "''title''"]
  by (simp add: save_demo_incomplete)

section \<open>Properties of get_history\<close>

text \<open>
  C12. \<open>get_history\<close> never raises and never writes: whatever the store does,
  the rows it returns are rows of the caller in the table, ordered newest
  first, and the database is unchanged.
\<close>

theorem get_history_sound:
  "sorted_wrt (\<lambda>a b. a_created_at b \<le> a_created_at a) (fst (get_history oc u w)) \<and>
   set (fst (get_history oc u w)) \<subseteq> {r \<in> set (analyses (db w)). a_user_id r = u} \<and>
   db (snd (get_history oc u w)) = db w"
  using get_history_rows [of oc u w] sort_desc_sorted [of a_created_at]
  by (auto simp: get_history_db)

text \<open>
  C26. When the store serves the select and rows were inserted in order of
  time, the history of a user is exactly the user's rows in reverse order of
  insertion: every saved analysis appears once, the latest first.
\<close>

theorem get_history_newest_first:
  assumes "chronological (db w)"
  shows "get_history (served ids t) u w = (rev (filter (\<lambda>r. a_user_id r = u) (analyses (db w))), w)"
  using assms by (simp add: select_history_chronological)

theorem get_history_newest_first_witness:
  "get_history (served (\<lambda>_. ''h'') 9) ''u1'' \<lparr>db = busy_store, out = []\<rparr> =
     ([later_analysis, sample_analysis], \<lparr>db = busy_store, out = []\<rparr>)"
  using get_history_newest_first [of "\<lparr>db = busy_store, out = []\<rparr>" "\<lambda>_. ''h''" 9 "''u1''"]
  by (simp add: chronological_def)

text \<open>
  C27. A failed read degrades to an empty history: if the store call raises,
  \<open>get_history\<close> returns the empty list, prints the error and leaves the
  database as it is.
\<close>

theorem get_history_degrades:
  assumes "reply oc = Raise e"
  shows "get_history oc u w = ([], say (Error_fetching_history e) w)"
  using assms by (simp add: get_history_def select_history_def answer_def)

theorem get_history_degrades_witness:
  "get_history (unreachable (APIError Unavailable)) ''u1'' \<lparr>db = empty_store, out = []\<rparr> =
     ([], \<lparr>db = empty_store, out = [Error_fetching_history (APIError Unavailable)]\<rparr>)"
  using get_history_degrades [of "unreachable (APIError Unavailable)" "APIError Unavailable" "''u1''"
      "\<lparr>db = empty_store, out = []\<rparr>"]
  by (simp add: say_def)

section \<open>Whose row is written\<close>

lemma insert_analyses_grows:
  assumes "insert_analyses pg oc p s = (res, s')"
  shows "analyses s' = analyses s \<or>
         (\<exists>new. cast_analysis pg (fresh oc 0) (clock oc) p = Inr new \<and>
                analyses s' = analyses s @ [new])"
  using assms by (auto dest!: insert_analyses_cases)

lemma save_analysis_rows:
  assumes "lawful pg" and "save_analysis pg oc1 oc2 u req d w = (res, w')"
  shows "analyses (db w') = analyses (db w) \<or>
         (\<exists>row. analyses (db w') = analyses (db w) @ [row] \<and> a_user_id row = u \<and>
            a_code_snippet row = code req \<and> a_language row = language req \<and>
            a_file_name row = file_name req \<and> a_id row = fresh oc1 0 \<and>
            a_created_at row = clock oc1)"
proof -
  have grown: "analyses s = analyses (db w) \<or>
         (\<exists>row. analyses s = analyses (db w) @ [row] \<and> a_user_id row = u \<and>
            a_code_snippet row = code req \<and> a_language row = language req \<and>
            a_file_name row = file_name req \<and> a_id row = fresh oc1 0 \<and>
            a_created_at row = clock oc1)"
    if "analysis_payload u req d = Inr p" and "insert_analyses pg oc1 p (db w) = (r, s)" for p r s
    using insert_analyses_grows [OF that(2)] cast_analysis_fields [OF assms(1) _ that(1)]
    by fastforce
  from assms(2) show ?thesis
  proof (cases rule: save_analysis_elim)
    case (parent_saved p r rs s)
    from parent_saved(3) have "analyses (db w') = analyses s"
      using save_results_parent by fastforce
    with grown [OF parent_saved(1,2)] show ?thesis by simp
  qed (use grown in auto)
qed

section \<open>The issue rows\<close>

lemma col_not_null_get:
  "col_not_null rd ((k, dict_get f k JNull) # p) k = col_not_null rd f k"
  by (simp add: col_not_null_def dict_get_def split: option.splits)

lemma col_nullable_get:
  "col_nullable rd None ((k, dict_get f k JNull) # p) k = col_nullable rd None f k"
  by (simp add: col_nullable_def dict_get_def split: option.splits)

lemma col_skip: "k \<noteq> k' \<Longrightarrow> col_not_null rd ((k', v) # p) k = col_not_null rd p k"
  "k \<noteq> k' \<Longrightarrow> col_nullable rd d ((k', v) # p) k = col_nullable rd d p k"
  by (simp_all add: col_not_null_def col_nullable_def)

lemma result_payload_row:
  assumes "lawful pg" and "result_payload aid x = Inr p" and "cast_result pg i t p = Inr r"
  shows "issue_row pg aid x r"
proof -
  from assms(2) obtain f where x: "x = JObj f" and p: "p =
      [(''analysis_id'', JStr aid), (''title'', dict_get f ''title'' JNull),
       (''description'', dict_get f ''description'' JNull),
       (''severity'', dict_get f ''severity'' JNull),
       (''issue_type'', dict_get f ''issue_type'' JNull),
       (''line_number'', dict_get f ''line_number'' JNull),
       (''suggestion'', dict_get f ''suggestion'' JNull)]"
    by (auto simp: result_payload_eq_Inr)
  from assms(3) have "col_not_null (as_str pg) p ''analysis_id'' = Inr (r_analysis_id r)"
    "col_not_null (as_str pg) p ''title'' = Inr (r_title r)"
    "col_not_null (as_str pg) p ''description'' = Inr (r_description r)"
    "col_not_null (as_str pg) p ''severity'' = Inr (r_severity r)"
    "col_not_null (as_str pg) p ''issue_type'' = Inr (r_issue_type r)"
    "col_nullable (int4 (as_int pg)) None p ''line_number'' = Inr (r_line_number r)"
    "col_nullable (as_str pg) None p ''suggestion'' = Inr (r_suggestion r)"
    by (simp_all add: cast_result_eq_Inr)
  with assms(1) show ?thesis
    unfolding p x issue_row_def
    by (simp add: col_skip col_not_null_get col_nullable_get col_not_null_eq_Inr)
qed

lemma loop_rows:
  assumes "py_bool v" and "and_then (py_iter v) (traverse (result_payload aid)) = Inr rows"
  obtains xs where "v = JArr xs" "list_all2 (\<lambda>x p. result_payload aid x = Inr p) xs rows"
proof (cases v)
  case (JStr s)
  with assms show ?thesis by (cases s) (simp_all add: result_payload_def)
next
  case (JArr xs)
  with assms(2) that show ?thesis by (simp add: traverse_eq_Inr)
next
  case (JObj kvs)
  with assms show ?thesis
    by (cases "remdups (map fst kvs)") (simp_all add: result_payload_def)
qed (use assms in simp_all)

lemma save_results_rows:
  assumes "lawful pg" and "save_results pg oc aid d w = (res, w')"
    and "analysis_results (db w') \<noteq> analysis_results (db w)"
  obtains xs new where "py_get d ''issues'' (JArr []) = Inr (JArr xs)"
    "analysis_results (db w') = analysis_results (db w) @ new"
    "list_all2 (issue_row pg aid) xs new" "res = Inr aid"
  using assms(2)
proof (cases rule: save_results_elim)
  case (inserted v rows r s)
  from inserted(2,3) obtain xs where v: "v = JArr xs"
    and xs: "list_all2 (\<lambda>x p. result_payload aid x = Inr p) xs rows"
    by (rule loop_rows)
  from inserted(6) have w': "db w' = s" by (simp split: sum.splits)
  with inserted(4) assms(3) obtain new where
    new: "analysis_results s = analysis_results (db w) @ new"
    and "list_all2 (\<lambda>kr row. cast_result pg (fresh oc (fst kr)) (clock oc) (snd kr) = Inr row)
           (enumerate 0 rows) new"
    by (auto elim: insert_results_new)
  from this(2) xs have "list_all2 (issue_row pg aid) xs new"
    by (rule list_all2_enumerate) (rule result_payload_row [OF assms(1)])
  with that inserted(1,5) v new w' show ?thesis by simp
qed (use assms(3) in auto)

text \<open>
  C5. The two-table mapping: whenever \<open>save_analysis\<close> changes
  \<open>analysis_results\<close>, it returns an identifier, the row of that identifier was
  appended to \<open>analyses\<close> for the caller, the issues of the reply are a list,
  and exactly one row per issue was appended, in the order of the issues, each
  referring to the new analysis and holding the fields of its issue.
\<close>

theorem save_analysis_stores_issues:
  assumes "lawful pg" and "save_analysis pg oc1 oc2 u req d w = (res, w')"
    and "analysis_results (db w') \<noteq> analysis_results (db w)"
  shows "\<exists>aid row xs new. res = Inr aid \<and>
           analyses (db w') = analyses (db w) @ [row] \<and> a_id row = aid \<and> a_user_id row = u \<and>
           py_get d ''issues'' (JArr []) = Inr (JArr xs) \<and>
           analysis_results (db w') = analysis_results (db w) @ new \<and>
           list_all2 (issue_row pg aid) xs new"
  using assms(2)
proof (cases rule: save_analysis_elim)
  case (parent_saved p r rs s)
  from parent_saved(2) have s: "analyses s = analyses (db w) @ [r]"
    "analysis_results s = analysis_results (db w)"
    and r: "cast_analysis pg (fresh oc1 0) (clock oc1) p = Inr r"
    by (auto dest: insert_analyses_data)
  from save_results_rows [OF assms(1) parent_saved(3)] assms(3) s(2)
  obtain xs new where "py_get d ''issues'' (JArr []) = Inr (JArr xs)"
    "analysis_results (db w') = analysis_results (db w) @ new"
    "list_all2 (issue_row pg (a_id r)) xs new" "res = Inr (a_id r)"
    by auto
  moreover from parent_saved(3) have "analyses (db w') = analyses s"
    using save_results_parent by fastforce
  moreover note cast_analysis_fields [OF assms(1) r parent_saved(1)]
  ultimately show ?thesis using s(1) by auto
qed (use assms(3) in \<open>auto dest: insert_analyses_children\<close>)

lemma issue_row_demo:
  "issue_row strict ''a1''
     (JObj [(''issue_type'', JStr ''style''), (''severity'', JStr ''low''),
        (''title'', JStr ''t''), (''description'', JStr ''d'')])
     \<lparr>r_id = ''r1'', r_analysis_id = ''a1'', r_issue_type = ''style'',
       r_severity = ''low'', r_title = ''t'', r_description = ''d'',
       r_line_number = None, r_suggestion = None, r_created_at = 6\<rparr>"
  by (simp add: issue_row_def store_eval)

theorem save_analysis_stores_issues_witness:
  "analysis_results (db (snd (save_analysis strict (served (\<lambda>_. ''a1'') 5)
      (served (\<lambda>_. ''r1'') 6) ''u1'' \<lparr>code = ''x = 1'', language = ''python'', file_name = None\<rparr>
      (JObj [(''issues'', JArr [JObj [(''issue_type'', JStr ''style''), (''severity'', JStr ''low''),
          (''title'', JStr ''t''), (''description'', JStr ''d'')]])])
      \<lparr>db = empty_store, out = []\<rparr>))) =
     [\<lparr>r_id = ''r1'', r_analysis_id = ''a1'', r_issue_type = ''style'',
       r_severity = ''low'', r_title = ''t'', r_description = ''d'',
       r_line_number = None, r_suggestion = None, r_created_at = 6\<rparr>] \<and>
   issue_row strict ''a1''
     (JObj [(''issue_type'', JStr ''style''), (''severity'', JStr ''low''),
        (''title'', JStr ''t''), (''description'', JStr ''d'')])
     \<lparr>r_id = ''r1'', r_analysis_id = ''a1'', r_issue_type = ''style'',
       r_severity = ''low'', r_title = ''t'', r_description = ''d'',
       r_line_number = None, r_suggestion = None, r_created_at = 6\<rparr>"
  using save_analysis_stores_issues [OF lawful_strict save_demo_issue]
  by (simp add: save_demo_issue issue_row_demo)

text \<open>
  C32. The count the model reports can cost the record: \<open>issues_count\<close> is an
  \<open>INTEGER\<close> column and the payload passes the model's figure on unchecked, so
  a reported count outside 32 bits makes the parent insert fail and nothing of
  the analysis is stored.
\<close>

theorem oversized_count_loses_record:
  assumes "lawful pg" and "dict_get kvs ''issues_count'' (JInt 0) = JInt n"
    and "2 ^ 31 \<le> n \<or> n < - (2 ^ 31)"
  shows "db (snd (save_analysis pg oc1 oc2 u req (JObj kvs) w)) = db w"
proof -
  obtain res w' where s: "save_analysis pg oc1 oc2 u req (JObj kvs) w = (res, w')" by force
  have "\<not> returns (cast_analysis pg i t p)" if "analysis_payload u req (JObj kvs) = Inr p" for i t p
  proof -
    from that assms(2) have "map_of p ''issues_count'' = Some (JInt n)"
      by (auto simp: analysis_payload_eq_Inr)
    moreover from assms(1,3) have "int4 (as_int pg) (JInt n) = None"
      by (auto intro: int4_out_of_range)
    ultimately show ?thesis
      by (auto simp: returns_iff cast_analysis_eq_Inr col_nullable_eq_Inr)
  qed
  with s have "db w' = db w"
    by (cases rule: save_analysis_elim) (auto dest!: insert_analyses_cases simp: returns_iff)
  with s show ?thesis by simp
qed

theorem oversized_count_loses_record_witness:
  "db (snd (save_analysis strict (served (\<lambda>_. ''a1'') 5) (served (\<lambda>_. ''r1'') 6) ''u1''
      \<lparr>code = ''x = 1'', language = ''python'', file_name = None\<rparr>
      (JObj [(''issues_count'', JInt 4294967296)]) \<lparr>db = empty_store, out = []\<rparr>)) = empty_store"
  using oversized_count_loses_record [OF lawful_strict, of "[(''issues_count'', JInt 4294967296)]"
      4294967296 "served (\<lambda>_. ''a1'') 5" "served (\<lambda>_. ''r1'') 6" "''u1''"
      "\<lparr>code = ''x = 1'', language = ''python'', file_name = None\<rparr>"
      "\<lparr>db = empty_store, out = []\<rparr>"]
  by simp

end
