(* ===== verification/Api.thy ===== *)
theory Api
  imports Services
begin

text \<open>
  \<open>main.py\<close>: the start-up warnings, the handler \<open>analyze_code\<close> of
  \<open>POST /api/v1/analyze\<close>, the liveness route and the history route, and the
  thin layer FastAPI puts in front of them (the body validated against
  \<open>CodeAnalysisRequest\<close>, the header \<open>X-User-ID\<close> with its default). The
  handler is split as the source nests it: \<open>persist\<close> is the inner \<open>try\<close>
  around the store, \<open>review\<close> the body of the outer \<open>try\<close>, \<open>analyze_code\<close>
  the guard in front of it and the two \<open>except\<close> clauses behind it. The
  collaborators the handler calls are the fields of \<open>env\<close>: the process
  environment, the completion call of the model provider (from the user
  prompt to the text of the first choice, or the exception the client raised),
  \<open>json.loads\<close>, and the two scalar coercions. The completion call gets
  what the handler passes to \<open>client.chat.completions.create\<close> (the two
  messages, the model name, the temperature and the response format) and
  returns the \<open>content\<close> of the first choice, which the client's type allows
  to be \<open>None\<close>, or the exception the call raised.
\<close>

section \<open>Responses and collaborators\<close>

datatype detail =
    Text string
  | Analysis_failed exn
  | Str_of exn
  | Validation "loc list list"

datatype http_exception = HTTPException nat detail

record chat_request =
  messages :: "(string \<times> string) list"
  model :: string
  temperature :: pyfloat
  response_format :: string

record env =
  os_environ :: environ
  chat_completion :: "chat_request \<Rightarrow> string option py"
  json_loads :: "string \<Rightarrow> json option"
  validation :: coercion
  casts :: coercion

fun status_code :: "http_exception + 'a \<Rightarrow> nat" where
  "status_code (Inl (HTTPException n d)) = n"
| "status_code (Inr r) = 200"

section \<open>Start-up\<close>

definition startup_warnings :: "environ \<Rightarrow> log_line list" where
  "startup_warnings e =
     (if unset (e ''GROQ_API_KEY'') then [Warning_missing ''GROQ_API_KEY''] else []) @
     (if unset (e ''SUPABASE_URL'') then [Warning_missing ''SUPABASE_URL''] else [])"

section \<open>POST /api/v1/analyze\<close>

definition user_prompt :: "code_analysis_request \<Rightarrow> string" where
  "user_prompt request =
     ''Language: '' @ language request @ [CHR 0x0A, CHR 0x0A] @ ''Code:'' @ [CHR 0x0A] @ code request"

definition system_prompt :: string where
  \<open>system_prompt =
     ''\<newline>'' @
     ''    You are an expert code reviewer and senior software engineer.\<newline>'' @
     ''    Analyze the provided code for bugs, security vulnerabilities, performance issues, and best practices.\<newline>'' @
     ''    \<newline>'' @
     ''    You MUST output your response in valid JSON format exactly matching this structure:\<newline>'' @
     ''    {\<newline>'' @
     ''        "issues": [\<newline>'' @
     ''            {\<newline>'' @
     ''                "issue_type": "bug" | "security" | "performance" | "style",\<newline>'' @
     ''                "severity": "critical" | "high" | "medium" | "low",\<newline>'' @
     ''                "title": "Short title of the issue",\<newline>'' @
     ''                "description": "Detailed explanation",\<newline>'' @
     ''                "line_number": <integer or null>,\<newline>'' @
     ''                "suggestion": "How to fix it"\<newline>'' @
     ''            }\<newline>'' @
     ''        ],\<newline>'' @
     ''        "optimized_code": "<The FULL fixed code. Do not truncate.>",\<newline>'' @
     ''        "summary": "A brief 2-sentence summary of the code quality.",\<newline>'' @
     ''        "issues_count": <integer>\<newline>'' @
     ''    }\<newline>'' @
     ''    \<newline>'' @
     ''    Do not include any markdown formatting (like ```json). Return ONLY the raw JSON string.\<newline>'' @
     ''    ''\<close>

text \<open>
  The arguments of the completion call. A message is its role and its content;
  the temperature is the double that Python reads from \<open>0.1\<close>.
\<close>

definition completion_request :: "code_analysis_request \<Rightarrow> chat_request" where
  "completion_request request =
     \<lparr>messages = [(''system'', system_prompt), (''user'', user_prompt request)],
      model = ''llama-3.3-70b-versatile'',
      temperature = Float 3602879701896397 (- 55),
      response_format = ''json_object''\<rparr>"

definition persist ::
  "env \<Rightarrow> outcome \<Rightarrow> outcome \<Rightarrow> string \<Rightarrow> code_analysis_request \<Rightarrow> json \<Rightarrow> world \<Rightarrow> world" where
  "persist E oc1 oc2 x_user_id request data_v w =
     (case (case init_service (os_environ E) of
              Inl e \<Rightarrow> (Inl e, w)
            | Inr _ \<Rightarrow> save_analysis (casts E) oc1 oc2 x_user_id request data_v w) of
        (Inl e, w') \<Rightarrow> say (Failed_to_save e) w'
      | (Inr _, w') \<Rightarrow> say (Analysis_saved x_user_id) w')"

definition build_response :: "coercion \<Rightarrow> code_analysis_request \<Rightarrow> json \<Rightarrow> api_response py" where
  "build_response c request data_v =
     and_then (py_get data_v ''issues'' (JArr [])) (\<lambda>issues_v.
     and_then (py_get data_v ''optimized_code'' (JStr (code request))) (\<lambda>code_v.
     and_then (py_get data_v ''summary'' (JStr ''Analysis complete.'')) (\<lambda>summary_v.
     and_then (py_get data_v ''issues'' (JArr [])) (\<lambda>counted.
     and_then (py_len counted) (\<lambda>n.
     and_then (validate_analysis_data c issues_v code_v summary_v n) (\<lambda>a.
       Inr \<lparr>analysis = a, code_snippet = Some (code request)\<rparr>))))))"

definition review ::
  "env \<Rightarrow> outcome \<Rightarrow> outcome \<Rightarrow> code_analysis_request \<Rightarrow> string \<Rightarrow> world
     \<Rightarrow> api_response py \<times> world" where
  "review E oc1 oc2 request x_user_id w =
     (case chat_completion E (completion_request request) of
        Inl e \<Rightarrow> (Inl e, w)
      | Inr None \<Rightarrow> (Inl TypeError, w)
      | Inr (Some response_content) \<Rightarrow>
          (case json_loads E response_content of
             None \<Rightarrow> (Inl JSONDecodeError, w)
           | Some data_v \<Rightarrow>
               (build_response (validation E) request data_v,
                persist E oc1 oc2 x_user_id request data_v w)))"

definition analyze_code ::
  "env \<Rightarrow> outcome \<Rightarrow> outcome \<Rightarrow> code_analysis_request \<Rightarrow> string \<Rightarrow> world
     \<Rightarrow> (http_exception + api_response) \<times> world" where
  "analyze_code E oc1 oc2 request x_user_id w =
     (if strip (code request) = []
      then (Inl (HTTPException 400 (Text ''Code cannot be empty'')), w)
      else case review E oc1 oc2 request x_user_id w of
        (Inr r, w') \<Rightarrow> (Inr r, w')
      | (Inl e, w') \<Rightarrow>
          if e = JSONDecodeError
          then (Inl (HTTPException 500 (Text ''AI returned invalid JSON format.'')), w')
          else (Inl (HTTPException 500 (Analysis_failed e)), say (Error_line e) w'))"

section \<open>GET / and GET /api/v1/history\<close>

definition read_root :: json where
  "read_root =
     JObj [(''status'', JStr ''Backend is running''), (''service'', JStr ''Code Analysis Agent'')]"

definition record_of_row :: "analyses_row \<Rightarrow> db_analysis_record" where
  "record_of_row r =
     \<lparr>db_id = a_id r, db_user_id = a_user_id r, db_code_snippet = a_code_snippet r,
      db_language = a_language r, db_file_name = a_file_name r, db_summary = a_summary r,
      db_optimized_code = a_optimized_code r, db_issues_count = a_issues_count r,
      db_created_at = a_created_at r\<rparr>"

definition get_history_route ::
  "env \<Rightarrow> outcome \<Rightarrow> string \<Rightarrow> world \<Rightarrow> (http_exception + db_analysis_record list) \<times> world" where
  "get_history_route E oc x_user_id w =
     (case init_service (os_environ E) of
        Inl e \<Rightarrow> (Inl (HTTPException 500 (Str_of e)), w)
      | Inr _ \<Rightarrow>
          (case get_history oc x_user_id w of
             (rows, w') \<Rightarrow> (Inr (map record_of_row rows), w')))"

section \<open>The HTTP surface\<close>

definition x_user_id_header :: "string option \<Rightarrow> string" where
  "x_user_id_header h = (case h of None \<Rightarrow> ''demo-user'' | Some v \<Rightarrow> v)"

definition post_analyze ::
  "env \<Rightarrow> outcome \<Rightarrow> outcome \<Rightarrow> json \<Rightarrow> string option \<Rightarrow> world
     \<Rightarrow> (http_exception + api_response) \<times> world" where
  "post_analyze E oc1 oc2 body header w =
     (case validate_request (validation E) body of
        Inl es \<Rightarrow> (Inl (HTTPException 422 (Validation es)), w)
      | Inr request \<Rightarrow> analyze_code E oc1 oc2 request (x_user_id_header header) w)"

definition get_history_http ::
  "env \<Rightarrow> outcome \<Rightarrow> string option \<Rightarrow> world
     \<Rightarrow> (http_exception + db_analysis_record list) \<times> world" where
  "get_history_http E oc header w = get_history_route E oc (x_user_id_header header) w"

section \<open>A stubbed environment\<close>

text \<open>
  The closed instances below run the handlers against a provider stub: every
  variable of the process environment is set, the completion call returns a
  fixed text, \<open>json.loads\<close> maps it to the given value, and both coercions
  are \<open>strict\<close>. \<open>stub_reply\<close> and \<open>stub_request\<close> are the reply and
  the request of the scenario in the specification's list of testable
  properties.
\<close>

abbreviation stub_env :: "json \<Rightarrow> env" where
  "stub_env v \<equiv>
     \<lparr>os_environ = (\<lambda>_. Some ''set''), chat_completion = (\<lambda>_. Inr (Some ''reply'')),
      json_loads = (\<lambda>_. Some v), validation = strict, casts = strict\<rparr>"

abbreviation stub_issue :: json where
  "stub_issue \<equiv>
     JObj [(''issue_type'', JStr ''style''), (''severity'', JStr ''low''),
           (''title'', JStr ''t''), (''description'', JStr ''d'')]"

abbreviation stub_reply :: json where
  "stub_reply \<equiv>
     JObj [(''issues'', JArr [stub_issue]),
           (''optimized_code'', JStr ''def f():\<newline>    pass''),
           (''summary'', JStr ''ok'')]"

abbreviation stub_request :: code_analysis_request where
  "stub_request \<equiv> \<lparr>code = ''def f(): pass'', language = ''python'', file_name = None\<rparr>"

abbreviation stub_response :: api_response where
  "stub_response \<equiv>
     \<lparr>analysis = \<lparr>issues = [\<lparr>issue_type = Style, severity = Low, title = ''t'',
          description = ''d'', line_number = None, suggestion = None\<rparr>],
        optimized_code = ''def f():\<newline>    pass'', summary = ''ok'',
        issues_count = 1\<rparr>,
      code_snippet = Some ''def f(): pass''\<rparr>"

abbreviation fresh_world :: world where
  "fresh_world \<equiv> \<lparr>db = empty_store, out = []\<rparr>"

section \<open>Facts about the handler\<close>

lemma status_code_simps [simp]:
  "status_code (Inl (HTTPException n d)) = n" "status_code (Inr r) = 200"
  by simp_all

lemma persist_elim [consumes 1, case_names no_config saved]:
  assumes "persist E oc1 oc2 u req v w = w'"
  obtains
    (no_config) e where "init_service (os_environ E) = Inl e" "w' = say (Failed_to_save e) w"
  | (saved) res w1 where "init_service (os_environ E) = Inr ()"
      "save_analysis (casts E) oc1 oc2 u req v w = (res, w1)"
      "w' = say (case res of Inl e \<Rightarrow> Failed_to_save e | Inr _ \<Rightarrow> Analysis_saved u) w1"
  using assms by (auto simp: persist_def split: sum.splits prod.splits)

lemma persist_extends: "extends (db w) (db (persist E oc1 oc2 u req v w))"
  by (auto simp: persist_def split: sum.splits prod.splits dest: save_analysis_extends)

lemma persist_ok: "store_ok (db w) \<Longrightarrow> store_ok (db (persist E oc1 oc2 u req v w))"
  by (auto simp: persist_def split: sum.splits prod.splits dest: save_analysis_ok)

lemma persist_out: "prefix (out w) (out (persist E oc1 oc2 u req v w))"
  by (auto simp: persist_def prefix_def split: sum.splits prod.splits dest!: save_analysis_out)

lemma persist_validation [simp]:
  "persist (E\<lparr>validation := c\<rparr>) oc1 oc2 u req v w = persist E oc1 oc2 u req v w"
  by (simp add: persist_def split: sum.splits)

lemma build_response_eq_Inr:
  "build_response c req v = Inr r \<longleftrightarrow>
     (\<exists>kvs n. v = JObj kvs \<and> py_len (dict_get kvs ''issues'' (JArr [])) = Inr n \<and>
        validate_analysis_data c (dict_get kvs ''issues'' (JArr []))
          (dict_get kvs ''optimized_code'' (JStr (code req)))
          (dict_get kvs ''summary'' (JStr ''Analysis complete.'')) n = Inr (analysis r) \<and>
        code_snippet r = Some (code req))"
  by (cases v; cases r) (auto simp: build_response_def and_then_eq_Inr)

lemma build_response_raises:
  "build_response c req v = Inl e \<Longrightarrow>
     e = AttributeError \<or> e = TypeError \<or> (\<exists>es. e = ValidationError es)"
  by (cases v)
     (auto simp: build_response_def and_then_eq_Inl dest: py_len_raises validate_analysis_data_raises)

lemma build_response_count:
  assumes "build_response c req v = Inr r"
  shows "issues_count (analysis r) = int (length (issues (analysis r)))"
proof -
  from assms obtain kvs n where n: "py_len (dict_get kvs ''issues'' (JArr [])) = Inr n"
    and a: "validate_analysis_data c (dict_get kvs ''issues'' (JArr []))
          (dict_get kvs ''optimized_code'' (JStr (code req)))
          (dict_get kvs ''summary'' (JStr ''Analysis complete.'')) n = Inr (analysis r)"
    by (auto simp: build_response_eq_Inr)
  from a have "validate_issues c (dict_get kvs ''issues'' (JArr [])) = Inr (issues (analysis r))"
    and "issues_count (analysis r) = int n"
    by (simp_all add: validate_analysis_data_eq_Inr)
  with n show ?thesis by (auto dest: validate_issues_length)
qed

lemma analyze_code_elim [consumes 1, case_names blank raised no_content bad_json parsed]:
  assumes "analyze_code E oc1 oc2 req u w = (res, w')"
  obtains
    (blank) "strip (code req) = []"
      "res = Inl (HTTPException 400 (Text ''Code cannot be empty''))" "w' = w"
  | (raised) e where "strip (code req) \<noteq> []"
      "chat_completion E (completion_request req) = Inl e"
      "res = Inl (HTTPException 500
         (if e = JSONDecodeError then Text ''AI returned invalid JSON format.'' else Analysis_failed e))"
      "w' = (if e = JSONDecodeError then w else say (Error_line e) w)"
  | (no_content) "strip (code req) \<noteq> []"
      "chat_completion E (completion_request req) = Inr None"
      "res = Inl (HTTPException 500 (Analysis_failed TypeError))" "w' = say (Error_line TypeError) w"
  | (bad_json) reply_text where "strip (code req) \<noteq> []"
      "chat_completion E (completion_request req) = Inr (Some reply_text)"
      "json_loads E reply_text = None"
      "res = Inl (HTTPException 500 (Text ''AI returned invalid JSON format.''))" "w' = w"
  | (parsed) reply_text v where "strip (code req) \<noteq> []"
      "chat_completion E (completion_request req) = Inr (Some reply_text)"
      "json_loads E reply_text = Some v"
      "res = (case build_response (validation E) req v of
                Inl e \<Rightarrow> Inl (HTTPException 500 (Analysis_failed e)) | Inr r \<Rightarrow> Inr r)"
      "w' = (case build_response (validation E) req v of
                Inl e \<Rightarrow> say (Error_line e) (persist E oc1 oc2 u req v w)
              | Inr r \<Rightarrow> persist E oc1 oc2 u req v w)"
  using assms
  by (auto simp: analyze_code_def review_def split: sum.splits option.splits if_splits
      dest: build_response_raises)

lemma analyze_code_status:
  assumes "analyze_code E oc1 oc2 req u w = (res, w')"
  shows "status_code res \<in> {200, 400, 500}"
  using assms by (cases rule: analyze_code_elim) (auto split: sum.splits)

lemma analyze_code_not_400:
  "strip (code req) \<noteq> [] \<Longrightarrow> status_code (fst (analyze_code E oc1 oc2 req u w)) \<noteq> 400"
  by (auto simp: analyze_code_def split: sum.splits prod.splits)

lemma analyze_code_extends:
  assumes "analyze_code E oc1 oc2 req u w = (res, w')"
  shows "extends (db w) (db w')"
  using assms
  by (cases rule: analyze_code_elim) (auto simp: persist_extends split: sum.splits)

lemma analyze_code_ok:
  assumes "analyze_code E oc1 oc2 req u w = (res, w')" and "store_ok (db w)"
  shows "store_ok (db w')"
  using assms
  by (cases rule: analyze_code_elim) (auto simp: persist_ok split: sum.splits)

lemmas api_eval =
  analyze_code_def review_def persist_def build_response_def user_prompt_def
  get_history_route_def record_of_row_def post_analyze_def get_history_http_def
  x_user_id_header_def

lemma scenario_run:
  "analyze_code (stub_env stub_reply) (served (\<lambda>_. ''a1'') 5) (served (\<lambda>_. ''r1'') 6)
      stub_request ''u1'' fresh_world =
   (Inr stub_response,
    \<lparr>db = \<lparr>analyses = [\<lparr>a_id = ''a1'', a_user_id = ''u1'', a_code_snippet = ''def f(): pass'',
              a_language = ''python'', a_file_name = None, a_summary = Some ''ok'',
              a_optimized_code = Some ''def f():\<newline>    pass'',
              a_issues_count = Some 0, a_created_at = 5\<rparr>],
            analysis_results = [\<lparr>r_id = ''r1'', r_analysis_id = ''a1'', r_issue_type = ''style'',
              r_severity = ''low'', r_title = ''t'', r_description = ''d'',
              r_line_number = None, r_suggestion = None, r_created_at = 6\<rparr>]\<rparr>,
     out = [Analysis_saved ''u1'']\<rparr>)"
  by (simp add: api_eval services_eval store_eval schema_eval strip_Cons_nonspace isspace_def)

lemma scenario_response:
  "fst (analyze_code (stub_env stub_reply) (served (\<lambda>_. ''a1'') 5) (served (\<lambda>_. ''r1'') 6)
      stub_request ''u1'' fresh_world) = Inr stub_response"
  by (simp add: scenario_run)

lemma stub_nonblank [simp]: "strip ''def f(): pass'' \<noteq> []"
  by (simp add: strip_Cons_nonspace isspace_def)

section \<open>Properties of POST /api/v1/analyze\<close>

text \<open>
  C2. The count in a response is the number of its issues: every success
  response of \<open>analyze_code\<close> has \<open>issues_count\<close> equal to the length of
  \<open>issues\<close>, whatever the model reported about itself, and echoes the code of
  the request.
\<close>

theorem issues_count_is_length:
  assumes "fst (analyze_code E oc1 oc2 req u w) = Inr r"
  shows "issues_count (analysis r) = int (length (issues (analysis r))) \<and>
         code_snippet r = Some (code req)"
proof -
  from assms obtain w' where "analyze_code E oc1 oc2 req u w = (Inr r, w')"
    by (metis prod.collapse)
  then show ?thesis
  proof (cases rule: analyze_code_elim)
    case (parsed reply_text v)
    then have r: "build_response (validation E) req v = Inr r" by (auto split: sum.splits)
    then have "code_snippet r = Some (code req)" by (auto simp: build_response_eq_Inr)
    with build_response_count [OF r] show ?thesis by simp
  qed auto
qed

theorem issues_count_is_length_witness:
  "fst (analyze_code (stub_env stub_reply) (served (\<lambda>_. ''a1'') 5) (served (\<lambda>_. ''r1'') 6)
      stub_request ''u1'' fresh_world) = Inr stub_response \<and>
   issues_count (analysis stub_response) = int (length (issues (analysis stub_response)))"
  using issues_count_is_length [OF scenario_response] scenario_response by simp

text \<open>
  C3. Blank input is refused before anything else happens: \<open>analyze_code\<close>
  answers 400 exactly when the code consists of white space only (the empty
  string included), and then the answer is \<open>Code cannot be empty\<close>, nothing is
  printed and nothing is written, whatever the provider, the parser and the
  store would have done.
\<close>

theorem blank_code_rejected:
  "(status_code (fst (analyze_code E oc1 oc2 req u w)) = 400) = list_all isspace (code req) \<and>
   (analyze_code E oc1 oc2 req u w =
      (Inl (HTTPException 400 (Text ''Code cannot be empty'')), w)) = list_all isspace (code req)"
proof (cases "strip (code req) = []")
  case True
  then show ?thesis by (simp add: analyze_code_def strip_eq_Nil [symmetric])
next
  case False
  from analyze_code_not_400 [OF this, of E oc1 oc2 u w] False show ?thesis
    by (auto simp: strip_eq_Nil [symmetric])
qed

text \<open>
  C6. If the text the provider returns is not JSON, the answer is 500 with
  the detail \<open>AI returned invalid JSON format.\<close>; no store call is made, so
  the database and the printed lines are as before.
\<close>

theorem invalid_json_500:
  assumes "strip (code req) \<noteq> []"
    and "chat_completion E (completion_request req) = Inr (Some reply_text)"
    and "json_loads E reply_text = None"
  shows "analyze_code E oc1 oc2 req u w =
           (Inl (HTTPException 500 (Text ''AI returned invalid JSON format.'')), w)"
  using assms by (simp add: analyze_code_def review_def)

theorem invalid_json_500_witness:
  "analyze_code ((stub_env JNull)\<lparr>json_loads := (\<lambda>_. None)\<rparr>) (served (\<lambda>_. ''a1'') 5)
      (served (\<lambda>_. ''r1'') 6) stub_request ''u1'' fresh_world =
     (Inl (HTTPException 500 (Text ''AI returned invalid JSON format.'')), fresh_world)"
  using invalid_json_500 [of stub_request "(stub_env JNull)\<lparr>json_loads := (\<lambda>_. None)\<rparr>" "''reply''"]
  by simp

text \<open>
  C28. The only status codes: \<open>analyze_code\<close> answers 200, 400 or 500; with
  the validation of the body in front of it, \<open>post_analyze\<close> answers 200, 400,
  422 or 500; the history route answers 200 or 500.
\<close>

theorem status_codes:
  "status_code (fst (analyze_code E oc1 oc2 req u w)) \<in> {200, 400, 500} \<and>
   status_code (fst (post_analyze E oc1 oc2 body h w)) \<in> {200, 400, 422, 500} \<and>
   status_code (fst (get_history_http E oc h w)) \<in> {200, 500}"
proof (intro conjI)
  show "status_code (fst (analyze_code E oc1 oc2 req u w)) \<in> {200, 400, 500}"
    by (rule analyze_code_status [OF surjective_pairing])
  show "status_code (fst (post_analyze E oc1 oc2 body h w)) \<in> {200, 400, 422, 500}"
    using analyze_code_status [OF surjective_pairing]
    by (fastforce simp: post_analyze_def split: sum.splits)
  show "status_code (fst (get_history_http E oc h w)) \<in> {200, 500}"
    by (simp add: get_history_http_def get_history_route_def split: sum.splits prod.splits)
qed

text \<open>
  C16. A request never changes or removes what is stored: after
  \<open>analyze_code\<close> both tables are the tables before it with rows appended.
\<close>

theorem analyze_code_append_only:
  "extends (db w) (db (snd (analyze_code E oc1 oc2 req u w)))"
  by (rule analyze_code_extends [OF surjective_pairing])

text \<open>
  C18. What is stored does not wait for validation: the database after
  \<open>analyze_code\<close> is the same whichever way the reply is validated, so a
  reply that fails validation (a 500 for the caller) is stored like one that
  passes.
\<close>

theorem store_independent_of_validation:
  "db (snd (analyze_code (E\<lparr>validation := c\<rparr>) oc1 oc2 req u w)) =
   db (snd (analyze_code E oc1 oc2 req u w))"
  by (simp add: analyze_code_def review_def split: sum.splits option.splits)

text \<open>
  C7. An unreachable store does not cost the caller the analysis: if a
  request succeeds with some store, it succeeds with the same response when
  the first store call raises without executing; the database is unchanged
  and the two lines of the failed save are printed.
\<close>

theorem store_unreachable_still_200:
  assumes "fst (analyze_code E oc1 oc2 req u w) = Inr r"
    and "init_service (os_environ E) = Inr ()"
  shows "analyze_code E (unreachable e) oc2' req u w =
           (Inr r, w\<lparr>out := out w @ [Supabase_error_analyses e, Failed_to_save e]\<rparr>)"
proof -
  from assms(1) obtain w' where "analyze_code E oc1 oc2 req u w = (Inr r, w')"
    by (metis prod.collapse)
  then show ?thesis
  proof (cases rule: analyze_code_elim)
    case (parsed reply_text v)
    then have r: "build_response (validation E) req v = Inr r" by (auto split: sum.splits)
    then obtain kvs where "v = JObj kvs" by (auto simp: build_response_eq_Inr)
    then have "persist E (unreachable e) oc2' u req v w =
        w\<lparr>out := out w @ [Supabase_error_analyses e, Failed_to_save e]\<rparr>"
      using assms(2)
      by (simp add: persist_def save_analysis_def analysis_payload_def
          insert_analyses_not_executed say_def)
    with parsed r show ?thesis by (simp add: analyze_code_def review_def)
  qed auto
qed

theorem store_unreachable_still_200_witness:
  "analyze_code (stub_env stub_reply) (unreachable (APIError Unavailable))
      (served (\<lambda>_. ''r1'') 6) stub_request ''u1'' fresh_world =
     (Inr stub_response,
      \<lparr>db = empty_store, out = [Supabase_error_analyses (APIError Unavailable),
        Failed_to_save (APIError Unavailable)]\<rparr>)"
  using store_unreachable_still_200 [OF scenario_response, of "APIError Unavailable"
      "served (\<lambda>_. ''r1'') 6"]
  by (simp add: init_service_def unset_def)

text \<open>
  C21. A write that did not happen is logged as saved: when the service is
  configured and the store answers the first insert with an empty result
  without executing it, \<open>save_analysis\<close> returns its marker instead of
  raising, so the handler prints the warning and then \<open>Analysis saved\<close>,
  although the database is unchanged.
\<close>

theorem failed_write_logged_as_saved:
  assumes "init_service (os_environ E) = Inr ()"
    and "\<not> executes oc1" and "reply oc1 = Empty"
  shows "persist E oc1 oc2 u req (JObj kvs) w =
           w\<lparr>out := out w @ [Warning_no_data, Analysis_saved u]\<rparr>"
  using assms
  by (simp add: persist_def save_analysis_def analysis_payload_def insert_analyses_not_executed
      answer_def say_def)

theorem failed_write_logged_as_saved_witness:
  "persist (stub_env stub_reply) \<lparr>executes = False, reply = Empty, fresh = (\<lambda>_. []), clock = 0\<rparr>
      (served (\<lambda>_. ''r1'') 6) ''u1'' stub_request (JObj []) fresh_world =
     \<lparr>db = empty_store, out = [Warning_no_data, Analysis_saved ''u1'']\<rparr>"
  using failed_write_logged_as_saved [of "stub_env stub_reply"
      "\<lparr>executes = False, reply = Empty, fresh = (\<lambda>_. []), clock = 0\<rparr>"
      "served (\<lambda>_. ''r1'') 6" "''u1''" stub_request "[]" fresh_world]
  by (simp add: init_service_def unset_def)

text \<open>
  C29. A reply whose \<open>optimized_code\<close> or \<open>summary\<close> is \<open>null\<close> is an error
  for the caller: the default of \<open>dict.get\<close> applies to a missing key only,
  \<open>null\<close> reaches the constructor of \<open>AnalysisData\<close>, and the answer is 500.
\<close>

theorem null_field_is_500:
  assumes "strip (code req) \<noteq> []"
    and "chat_completion E (completion_request req) = Inr (Some reply_text)"
    and "json_loads E reply_text = Some (JObj kvs)"
    and "map_of kvs ''optimized_code'' = Some JNull \<or> map_of kvs ''summary'' = Some JNull"
  shows "status_code (fst (analyze_code E oc1 oc2 req u w)) = 500"
proof -
  have "\<not> returns (build_response (validation E) req (JObj kvs))"
    using assms(4) by (auto simp: returns_iff build_response_eq_Inr validate_analysis_data_eq_Inr)
  with assms(1-3) show ?thesis
    by (auto simp: analyze_code_def review_def not_returns_iff)
qed

lemma null_summary_run:
  "analyze_code (stub_env (JObj [(''issues'', JArr []), (''summary'', JNull)]))
      (served (\<lambda>_. ''a1'') 5) (served (\<lambda>_. ''r1'') 6) stub_request ''u1'' fresh_world =
   (Inl (HTTPException 500 (Analysis_failed (ValidationError [[Key ''summary'']]))),
    \<lparr>db = \<lparr>analyses = [\<lparr>a_id = ''a1'', a_user_id = ''u1'', a_code_snippet = ''def f(): pass'',
              a_language = ''python'', a_file_name = None, a_summary = None,
              a_optimized_code = None, a_issues_count = Some 0, a_created_at = 5\<rparr>],
            analysis_results = []\<rparr>,
     out = [Analysis_saved ''u1'', Error_line (ValidationError [[Key ''summary'']])]\<rparr>)"
  by (simp add: api_eval services_eval store_eval schema_eval)

theorem null_field_is_500_witness:
  "status_code (fst (analyze_code (stub_env (JObj [(''issues'', JArr []), (''summary'', JNull)]))
      (served (\<lambda>_. ''a1'') 5) (served (\<lambda>_. ''r1'') 6) stub_request ''u1'' fresh_world)) = 500"
  using null_field_is_500 [of stub_request
      "stub_env (JObj [(''issues'', JArr []), (''summary'', JNull)])" "''reply''"
      "[(''issues'', JArr []), (''summary'', JNull)]"]
  by simp

section \<open>Properties of the request layer and of GET /api/v1/history\<close>

text \<open>
  C30. A body that is not a \<open>CodeAnalysisRequest\<close> is answered 422 and never
  reaches the handler: \<open>post_analyze\<close> answers 422 exactly when validation
  of the body fails.
\<close>

theorem post_analyze_422:
  "(status_code (fst (post_analyze E oc1 oc2 body h w)) = 422) =
     (\<not> returns (validate_request (validation E) body))"
proof (cases "validate_request (validation E) body")
  case (Inr req)
  with analyze_code_status [OF surjective_pairing, of E oc1 oc2 req "x_user_id_header h" w]
  show ?thesis by (auto simp: post_analyze_def)
qed (simp add: post_analyze_def)

text \<open>
  C31. The history route answers 500 exactly when the configuration of the
  store is missing; otherwise it answers 200 with the records of
  \<open>get_history\<close>, also when the read fails. It never writes.
\<close>

theorem history_route_status:
  "status_code (fst (get_history_route E oc u w)) =
     (if unset (os_environ E ''SUPABASE_URL'') \<or> unset (os_environ E ''SUPABASE_KEY'')
      then 500 else 200) \<and>
   db (snd (get_history_route E oc u w)) = db w"
  using get_history_db [of oc u w]
  by (auto simp: get_history_route_def init_service_def split: prod.splits)

text \<open>
  A caller who sends no \<open>X-User-ID\<close> is the user \<open>demo-user\<close>: both
  routes treat an absent header as that identifier, so all anonymous callers
  share one history.
\<close>

theorem absent_header_is_demo_user:
  "post_analyze E oc1 oc2 body None w = post_analyze E oc1 oc2 body (Some ''demo-user'') w \<and>
   get_history_http E oc None w = get_history_http E oc (Some ''demo-user'') w"
  by (simp add: post_analyze_def get_history_http_def x_user_id_header_def split: sum.splits)

section \<open>Whose row a request writes\<close>

lemma persist_rows:
  assumes "lawful (casts E)"
  shows "analyses (db (persist E oc1 oc2 u req v w)) = analyses (db w) \<or>
         (\<exists>row. analyses (db (persist E oc1 oc2 u req v w)) = analyses (db w) @ [row] \<and>
            a_user_id row = u \<and> a_code_snippet row = code req \<and>
            a_language row = language req \<and> a_file_name row = file_name req \<and>
            a_id row = fresh oc1 0 \<and> a_created_at row = clock oc1)"
proof (cases "init_service (os_environ E)")
  case (Inr x)
  obtain res w' where s: "save_analysis (casts E) oc1 oc2 u req v w = (res, w')" by force
  with Inr have "db (persist E oc1 oc2 u req v w) = db w'"
    by (simp add: persist_def split: sum.splits)
  with save_analysis_rows [OF assms s] show ?thesis by simp
qed (simp add: persist_def)

lemma analyze_code_rows:
  assumes "lawful (casts E)" and "analyze_code E oc1 oc2 req u w = (res, w')"
  shows "analyses (db w') = analyses (db w) \<or>
         (\<exists>row. analyses (db w') = analyses (db w) @ [row] \<and>
            a_user_id row = u \<and> a_code_snippet row = code req \<and>
            a_language row = language req \<and> a_file_name row = file_name req \<and>
            a_id row = fresh oc1 0 \<and> a_created_at row = clock oc1)"
  using assms(2)
proof (cases rule: analyze_code_elim)
  case (parsed reply_text v)
  from parsed(5) have "db w' = db (persist E oc1 oc2 u req v w)" by (simp split: sum.splits)
  with persist_rows [OF assms(1), of oc1 oc2 u req v w] show ?thesis by simp
qed auto

text \<open>
  C33. A reply without content is an error of the request: when the first
  choice of the provider carries no content, \<open>json.loads\<close> raises
  \<open>TypeError\<close>, the general \<open>except\<close> clause prints it and answers 500 with
  \<open>Analysis failed\<close>; no store call is made.
\<close>

theorem missing_content_500:
  assumes "strip (code req) \<noteq> []"
    and "chat_completion E (completion_request req) = Inr None"
  shows "analyze_code E oc1 oc2 req u w =
           (Inl (HTTPException 500 (Analysis_failed TypeError)), say (Error_line TypeError) w)"
  using assms by (simp add: analyze_code_def review_def)

theorem missing_content_500_witness:
  "analyze_code ((stub_env stub_reply)\<lparr>chat_completion := (\<lambda>_. Inr None)\<rparr>)
      (served (\<lambda>_. ''a1'') 5) (served (\<lambda>_. ''r1'') 6) stub_request ''u1'' fresh_world =
     (Inl (HTTPException 500 (Analysis_failed TypeError)),
      \<lparr>db = empty_store, out = [Error_line TypeError]\<rparr>)"
  using missing_content_500 [of stub_request
      "(stub_env stub_reply)\<lparr>chat_completion := (\<lambda>_. Inr None)\<rparr>"]
  by (simp add: say_def)

end
