(* ===== verification/System.thy ===== *)
theory System
  imports Api
begin

text \<open>
  The service as a whole: the three routes of \<open>main.py\<close> as one datatype of
  calls with the function \<open>handle\<close> that dispatches them, sequences of calls
  (\<open>run\<close>), the transition relation \<open>step\<close> with the worlds that are
  \<open>reachable\<close> from the first start-up by calls and by restarts of the
  process (a restart keeps the database), and an abstract specification of what the
  service promises its users: a history per user, to which a request that is
  saved adds its submission at the front (\<open>spec_step\<close>). The refinement
  lemma relates \<open>handle\<close> to \<open>spec_step\<close> through the abstraction
  \<open>histories_of\<close>. A call carries the behaviour of the environment during
  that call (its \<open>env\<close> and outcomes), so a sequence of calls fixes one
  behaviour of provider and store, and a theorem about all sequences holds
  for every behaviour.
\<close>

section \<open>Calls\<close>

datatype call =
    Post_analyze env outcome outcome json "string option"
  | Get_history env outcome "string option"
  | Get_root

datatype response =
    Analysis "http_exception + api_response"
  | History "http_exception + db_analysis_record list"
  | Root json

fun handle :: "call \<Rightarrow> world \<Rightarrow> response \<times> world" where
  "handle (Post_analyze E oc1 oc2 body h) w =
     (case post_analyze E oc1 oc2 body h w of (r, w') \<Rightarrow> (Analysis r, w'))"
| "handle (Get_history E oc h) w =
     (case get_history_http E oc h w of (r, w') \<Rightarrow> (History r, w'))"
| "handle Get_root w = (Root read_root, w)"

fun run :: "call list \<Rightarrow> world \<Rightarrow> response list \<times> world" where
  "run [] w = ([], w)"
| "run (c # cs) w =
     (case handle c w of (r, w') \<Rightarrow> (case run cs w' of (rs, w'') \<Rightarrow> (r # rs, w'')))"

text \<open>
  The world after the first start-up: the tables just created by
  \<open>setup_database\<close>, the warnings of the module printed.
\<close>

definition initial :: "environ \<Rightarrow> world" where
  "initial e = \<lparr>db = empty_store, out = startup_warnings e\<rparr>"

section \<open>Transitions\<close>

inductive step :: "world \<Rightarrow> call \<Rightarrow> response \<Rightarrow> world \<Rightarrow> bool" where
  handled: "handle c w = (r, w') \<Longrightarrow> step w c r w'"

text \<open>
  The database is hosted and outlives the process: a restart keeps the tables
  and prints the start-up warnings anew.
\<close>

inductive reachable :: "world \<Rightarrow> bool" where
  start: "reachable (initial e)"
| after: "reachable w \<Longrightarrow> step w c r w' \<Longrightarrow> reachable w'"
| restart: "reachable w \<Longrightarrow> reachable \<lparr>db = db w, out = startup_warnings e\<rparr>"

inductive_cases stepE: "step w c r w'"

inductive_simps step_iff: "step w c r w'"

text \<open>
  Two conditions on a call that some theorems need: the store casts strings and
  integers to themselves, and the store's clock is not behind the rows it holds.
\<close>

fun casts_lawful :: "call \<Rightarrow> bool" where
  "casts_lawful (Post_analyze E oc1 oc2 body h) = lawful (casts E)"
| "casts_lawful _ = True"

fun timely :: "call \<Rightarrow> world \<Rightarrow> bool" where
  "timely (Post_analyze E oc1 oc2 body h) w =
     list_all (\<lambda>r. a_created_at r \<le> clock oc1) (analyses (db w))"
| "timely _ w = True"

fun timely_run :: "call list \<Rightarrow> world \<Rightarrow> bool" where
  "timely_run [] w = True"
| "timely_run (c # cs) w = (timely c w \<and> casts_lawful c \<and> timely_run cs (snd (handle c w)))"

section \<open>The abstract service\<close>

text \<open>
  What a user is promised: a history of submissions, newest first. A
  submission is the code, the language and the file name of a request.
\<close>

type_synonym submission = "string \<times> string \<times> string option"

type_synonym histories = "string \<Rightarrow> submission list"

definition submission_of :: "analyses_row \<Rightarrow> submission" where
  "submission_of r = (a_code_snippet r, a_language r, a_file_name r)"

definition histories_of :: "world \<Rightarrow> histories" where
  "histories_of w u = map submission_of (rev (filter (\<lambda>r. a_user_id r = u) (analyses (db w))))"

definition record_submission :: "string \<Rightarrow> code_analysis_request \<Rightarrow> histories \<Rightarrow> histories" where
  "record_submission u req H = H(u := (code req, language req, file_name req) # H u)"

text \<open>
  The abstract transition of a call. Saving is best effort, so whether the
  submission is recorded is an input of the specification; nothing else may
  change, and only the caller's history may grow.
\<close>

fun spec_step :: "call \<Rightarrow> bool \<Rightarrow> histories \<Rightarrow> histories" where
  "spec_step (Post_analyze E oc1 oc2 body h) saved H =
     (case validate_request (validation E) body of
        Inl _ \<Rightarrow> H
      | Inr req \<Rightarrow> if saved then record_submission (x_user_id_header h) req H else H)"
| "spec_step _ saved H = H"

definition saved_by :: "world \<Rightarrow> world \<Rightarrow> bool" where
  "saved_by w w' \<longleftrightarrow> analyses (db w') \<noteq> analyses (db w)"

section \<open>Facts about runs\<close>

lemma handle_ok: "handle c w = (r, w') \<Longrightarrow> store_ok (db w) \<Longrightarrow> store_ok (db w')"
  by (cases c)
     (auto simp: post_analyze_def get_history_http_def get_history_route_def get_history_def
       split: sum.splits prod.splits dest: analyze_code_ok)

lemma handle_extends: "handle c w = (r, w') \<Longrightarrow> extends (db w) (db w')"
  by (cases c)
     (auto simp: post_analyze_def get_history_http_def get_history_route_def get_history_def
       split: sum.splits prod.splits dest: analyze_code_extends)

lemma handle_reads [simp]:
  "db (snd (handle (Get_history E oc h) w)) = db w" "snd (handle Get_root w) = w"
  by (simp_all add: get_history_http_def get_history_route_def get_history_def
      split: sum.splits prod.splits)

lemma run_Cons_fst: "fst (run (c # cs) w) = fst (handle c w) # fst (run cs (snd (handle c w)))"
  by (simp split: prod.splits)

lemma run_Cons_snd: "snd (run (c # cs) w) = snd (run cs (snd (handle c w)))"
  by (simp split: prod.splits)

lemmas run_steps = run_Cons_fst run_Cons_snd

lemma run_append_snd: "snd (run (cs @ ds) w) = snd (run ds (snd (run cs w)))"
  by (induction cs arbitrary: w) (simp_all add: run_steps del: run.simps(2))

lemma run_append_fst: "fst (run (cs @ ds) w) = fst (run cs w) @ fst (run ds (snd (run cs w)))"
  by (induction cs arbitrary: w) (simp_all add: run_steps del: run.simps(2))

lemma run_snoc: "snd (run (cs @ [c]) w) = snd (handle c (snd (run cs w)))"
  by (simp only: run_append_snd run_Cons_snd run.simps(1) snd_conv)

lemma run_length: "length (fst (run cs w)) = length cs"
  by (induction cs arbitrary: w) (simp_all add: run_steps del: run.simps(2))

lemma run_ok: "store_ok (db w) \<Longrightarrow> store_ok (db (snd (run cs w)))"
  by (induction cs arbitrary: w)
     (simp_all add: run_steps handle_ok [OF surjective_pairing] del: run.simps(2))

lemma run_extends: "extends (db w) (db (snd (run cs w)))"
proof (induction cs arbitrary: w)
  case (Cons c cs)
  from handle_extends [OF surjective_pairing] Cons [of "snd (handle c w)"]
  show ?case unfolding run_Cons_snd by (rule extends_trans)
qed simp

lemma initial_ok [simp]: "store_ok (db (initial e))"
  by (simp add: initial_def)

lemma reachable_handle: "reachable w \<Longrightarrow> reachable (snd (handle c w))"
  by (rule reachable.after [OF _ step.handled [OF surjective_pairing]])

lemma reachable_run: "reachable w \<Longrightarrow> reachable (snd (run cs w))"
  by (induction cs arbitrary: w) (simp_all add: run_steps reachable_handle del: run.simps(2))

lemma handle_rows:
  assumes "casts_lawful c" and "handle c w = (r, w')"
  shows "analyses (db w') = analyses (db w) \<or>
         (\<exists>E oc1 oc2 body h req row. c = Post_analyze E oc1 oc2 body h \<and>
            validate_request (validation E) body = Inr req \<and>
            analyses (db w') = analyses (db w) @ [row] \<and>
            a_user_id row = x_user_id_header h \<and> submission_of row = (code req, language req, file_name req) \<and>
            a_created_at row = clock oc1)"
proof (cases c)
  case (Post_analyze E oc1 oc2 body h)
  show ?thesis
  proof (cases "validate_request (validation E) body")
    case (Inr req)
    with assms Post_analyze
    have "analyze_code E oc1 oc2 req (x_user_id_header h) w = (case r of Analysis x \<Rightarrow> x, w')"
      and "lawful (casts E)"
      by (auto simp: post_analyze_def split: prod.splits)
    from analyze_code_rows [OF this(2,1)] Post_analyze Inr show ?thesis
      by (auto simp: submission_of_def)
  qed (use assms Post_analyze in \<open>auto simp: post_analyze_def\<close>)
next
  case (Get_history E oc h)
  with assms(2) handle_reads(1) [of E oc h w] show ?thesis by simp
qed (use assms in auto)

lemma handle_chronological:
  assumes "casts_lawful c" and "timely c w" and "chronological (db w)"
  shows "chronological (db (snd (handle c w)))"
  using handle_rows [OF assms(1) surjective_pairing, of w] assms(2,3)
  by (auto simp: chronological_def sorted_append list_all_iff)

lemma spec_step_unsaved [simp]: "spec_step c False H = H"
  by (cases c) (simp_all split: sum.splits)

lemma histories_of_same:
  "analyses (db w') = analyses (db w) \<Longrightarrow> histories_of w' = histories_of w"
  by (simp add: histories_of_def fun_eq_iff)

lemma histories_of_grown:
  assumes "analyses (db w') = analyses (db w) @ [row]" and "a_user_id row = u"
    and "submission_of row = (code req, language req, file_name req)"
  shows "histories_of w' = record_submission u req (histories_of w)"
  using assms by (auto simp: histories_of_def record_submission_def fun_eq_iff)

section \<open>Invariants of the reachable worlds\<close>

text \<open>
  C10. In every world the service can reach from start-up, by any sequence of
  calls and with any behaviour of provider and store, the database is
  consistent: primary keys are distinct and every result row has its parent.
\<close>

theorem reachable_store_ok:
  assumes "reachable w"
  shows "store_ok (db w)"
  using assms
proof (induction rule: reachable.induct)
  case (start e)
  show ?case by simp
next
  case (after w c r w')
  then show ?case by (auto elim!: stepE dest: handle_ok)
next
  case (restart w e)
  then show ?case by simp
qed

theorem reachable_store_ok_witness:
  "store_ok (db (snd (run
     [Post_analyze (stub_env stub_reply) (served (\<lambda>_. ''a1'') 5) (served (\<lambda>_. ''r1'') 6)
        (request_to_json stub_request) (Some ''u1''),
      Get_history (stub_env stub_reply) (served (\<lambda>_. ''h'') 9) (Some ''u1'')]
     (initial (\<lambda>_. Some ''set'')))))"
  by (rule reachable_store_ok [OF reachable_run [OF reachable.start]])

text \<open>
  Every call is answered and no sequence of calls changes or removes a
  stored row: a run returns one response per call, and the tables after it
  are the tables before it with rows appended.
\<close>

theorem run_append_only:
  "length (fst (run cs w)) = length cs \<and> extends (db w) (db (snd (run cs w)))"
  by (simp add: run_length run_extends)

text \<open>
  Rows stay in order of time as long as the store's clock does not go
  back: if every call of a run meets a database whose rows are not newer than
  the time the store assigns, a database in order of time stays so.
\<close>

theorem run_chronological:
  assumes "chronological (db w)" and "timely_run cs w"
  shows "chronological (db (snd (run cs w)))"
  using assms
  by (induction cs arbitrary: w) (simp_all add: run_steps handle_chronological del: run.simps(2))

theorem run_chronological_witness:
  "chronological (db (snd (run [Get_root, Get_history (stub_env stub_reply)
      (served (\<lambda>_. ''h'') 9) None] (initial (\<lambda>_. None)))))"
  using run_chronological [of "initial (\<lambda>_. None)"
      "[Get_root, Get_history (stub_env stub_reply) (served (\<lambda>_. ''h'') 9) None]"]
  by (simp add: initial_def)

section \<open>Refinement\<close>

text \<open>
  C9. The service implements the abstract histories: for every call, the
  histories after \<open>handle\<close> are those that \<open>spec_step\<close> gives from the
  histories before, where a submission is recorded exactly when the call
  added a row. So a reading call changes no history, a request changes at most
  its caller's history, and a saved request puts its code, language and file
  name at the front.
\<close>

theorem handle_refines_spec:
  assumes "casts_lawful c" and "handle c w = (r, w')"
  shows "histories_of w' = spec_step c (saved_by w w') (histories_of w)"
  using handle_rows [OF assms]
proof (elim disjE exE conjE)
  assume "analyses (db w') = analyses (db w)"
  then show ?thesis by (simp add: saved_by_def histories_of_same [of w' w])
next
  fix E oc1 oc2 body h req row
  assume c: "c = Post_analyze E oc1 oc2 body h" "validate_request (validation E) body = Inr req"
    and row: "analyses (db w') = analyses (db w) @ [row]" "a_user_id row = x_user_id_header h"
      "submission_of row = (code req, language req, file_name req)"
  from row(1) have "saved_by w w'" by (simp add: saved_by_def)
  with c histories_of_grown [OF row] show ?thesis by simp
qed

lemma scenario_handled:
  "handle (Post_analyze (stub_env stub_reply) (served (\<lambda>_. ''a1'') 5) (served (\<lambda>_. ''r1'') 6)
      (request_to_json stub_request) (Some ''u1'')) fresh_world =
   (Analysis (Inr stub_response), snd (analyze_code (stub_env stub_reply) (served (\<lambda>_. ''a1'') 5)
      (served (\<lambda>_. ''r1'') 6) stub_request ''u1'' fresh_world))"
  by (simp add: post_analyze_def validate_request_roundtrip x_user_id_header_def scenario_run)

theorem handle_refines_spec_witness:
  "histories_of (snd (analyze_code (stub_env stub_reply) (served (\<lambda>_. ''a1'') 5)
      (served (\<lambda>_. ''r1'') 6) stub_request ''u1'' fresh_world)) =
   record_submission ''u1'' stub_request (histories_of fresh_world)"
  using handle_refines_spec [OF _ scenario_handled]
  by (simp add: validate_request_roundtrip x_user_id_header_def saved_by_def scenario_run)

text \<open>
  C19. The history route returns the abstract history: when the service is
  configured, the store serves the select and rows are in order of time, the
  records returned for a caller are the caller's submissions, newest first,
  and the world is unchanged.
\<close>

theorem history_is_abstraction:
  assumes "chronological (db w)" and "init_service (os_environ E) = Inr ()"
  shows "\<exists>recs. handle (Get_history E (served ids t) h) w = (History (Inr recs), w) \<and>
           map (\<lambda>r. (db_code_snippet r, db_language r, db_file_name r)) recs =
             histories_of w (x_user_id_header h)"
  using assms
  by (simp add: get_history_http_def get_history_route_def select_history_chronological
      histories_of_def submission_of_def record_of_row_def comp_def rev_map)

lemma busy_history:
  "handle (Get_history (stub_env stub_reply) (served (\<lambda>_. ''h'') 9) (Some ''u1''))
      \<lparr>db = busy_store, out = []\<rparr> =
     (History (Inr [record_of_row later_analysis, record_of_row sample_analysis]),
      \<lparr>db = busy_store, out = []\<rparr>)"
  by (simp add: get_history_http_def get_history_route_def init_service_def unset_def
      x_user_id_header_def sort_desc_def)

theorem history_is_abstraction_witness:
  "handle (Get_history (stub_env stub_reply) (served (\<lambda>_. ''h'') 9) (Some ''u1''))
      \<lparr>db = busy_store, out = []\<rparr> =
     (History (Inr [record_of_row later_analysis, record_of_row sample_analysis]),
      \<lparr>db = busy_store, out = []\<rparr>) \<and>
   histories_of \<lparr>db = busy_store, out = []\<rparr> ''u1'' =
     [(''y = 2'', ''python'', None), (''x = 1'', ''python'', None)]"
proof -
  have c: "chronological (db \<lparr>db = busy_store, out = []\<rparr>)"
    by (simp add: chronological_def)
  have i: "init_service (os_environ (stub_env stub_reply)) = Inr ()"
    by (simp add: init_service_def unset_def)
  from history_is_abstraction [OF c i, of "\<lambda>_. ''h''" 9 "Some ''u1''"] show ?thesis
    by (auto simp: busy_history record_of_row_def x_user_id_header_def simp del: handle.simps)
qed

end
