(* ===== verification/Spec2Isabelle.thy ===== *)
theory Spec2Isabelle
  imports System
begin

text \<open>
  \<^bold>\<open>CodeSense: a verified model of the code-review relay.\<close>

  The program is a FastAPI service of four Python files. \<open>POST /api/v1/analyze\<close>
  takes a code snippet, asks a hosted language model for a review, parses the
  reply as JSON, tries to save request and reply in a hosted Postgres database
  (two tables), validates the reply against its response schema and returns it.
  \<open>GET /api/v1/history\<close> returns a caller's saved analyses, newest first.

  \<^bold>\<open>Theories and what they model.\<close>
  \<^item> \<open>Prelude\<close>: nothing of the repository; exceptions as \<open>Inl\<close> of a sum
    (\<open>and_then\<close>, \<open>traverse\<close>), error-collecting validation (\<open>both\<close>,
    \<open>collect\<close>), \<open>trim\<close> and \<open>sort_desc\<close> with their lemmas.
  \<^item> \<open>Py_Value\<close>: the values of \<open>json.loads\<close> (\<open>json\<close>), the exception classes
    (\<open>exn\<close>), and the built-ins the sources call on untyped data: \<open>py_get\<close>
    (\<open>dict.get\<close>), \<open>py_len\<close>, \<open>py_bool\<close>, \<open>py_iter\<close>, \<open>strip\<close>.
  \<^item> \<open>Schema\<close>: the pydantic classes of \<open>src/main.py\<close> (lines 48-69) as
    records, their validators (\<open>validate_request\<close>, \<open>validate_issue\<close>,
    \<open>validate_issues\<close>, \<open>validate_analysis_data\<close>) and the encoders of the
    response body; the record class of \<open>src/models.py\<close> that the history
    route declares.
  \<^item> \<open>Store\<close>: the schema of \<open>src/setup_db.py\<close> (lines 13-43) as typed rows.
    The statements \<open>insert_analyses\<close>, \<open>insert_results\<close> and
    \<open>select_history\<close> are what the database does with the requests that
    \<open>services.py\<close> sends, derived from the DDL: every column of a table is
    accepted (\<open>id\<close> and \<open>created_at\<close> included), a column with a
    \<open>DEFAULT\<close> is filled when it is absent (\<open>col_default\<close>), \<open>NOT NULL\<close>,
    \<open>PRIMARY KEY\<close> and \<open>REFERENCES\<close> are checked, an \<open>INTEGER\<close> is a
    32-bit value (\<open>int4\<close>); \<open>store_ok\<close> is the integrity the constraints
    give.
  \<^item> \<open>Services\<close>: \<open>src/services.py\<close>, class \<open>SupabaseService\<close>:
    \<open>init_service\<close> (\<open>__init__\<close>), \<open>save_analysis\<close> with its payload builders,
    \<open>get_history\<close>.
  \<^item> \<open>Api\<close>: \<open>src/main.py\<close>: \<open>startup_warnings\<close>, \<open>analyze_code\<close> (with
    the request it sends to the provider, \<open>completion_request\<close>, the text of
    its \<open>system_prompt\<close>, and the parts \<open>persist\<close>, \<open>build_response\<close>,
    \<open>review\<close>), \<open>read_root\<close>, \<open>get_history_route\<close>, and the request layer
    \<open>post_analyze\<close>, \<open>get_history_http\<close>.
  \<^item> \<open>System\<close>: the service as a whole: the routes as a datatype \<open>call\<close>
    with the dispatch \<open>handle\<close>, sequences of calls (\<open>run\<close>), the transition
    relation \<open>step\<close> and the worlds \<open>reachable\<close> from the first start-up
    (\<open>initial\<close>) by calls and restarts of the process, and the abstract
    service: a history of submissions per user (\<open>histories_of\<close>,
    \<open>spec_step\<close>).
  \<^item> this theory: the properties that span the components.

  \<^bold>\<open>State and effects.\<close> The only state that outlives a request is the
  database; with the lines the process prints it forms the \<open>world\<close> that every
  operation takes and returns. Everything the service cannot decide is an
  explicit input: the \<open>env\<close> record (process environment, the provider's
  completion call as a function of the request sent, \<open>json.loads\<close>, two
  \<open>coercion\<close>s for the scalar conversions of pydantic and of PostgREST) and
  one \<open>outcome\<close> per store call (whether the statement is executed, what the
  client sees, the identifiers and the time the database draws). A theorem
  quantified over \<open>env\<close> and \<open>outcome\<close> holds for every behaviour of provider,
  parser and store. An exception is the value \<open>Inl e\<close>; every \<open>raise\<close>,
  \<open>except\<close> and early \<open>return\<close> of the sources is a branch of the
  corresponding definition. The provider's message may carry no content
  (\<open>None\<close>), on which \<open>json.loads\<close> raises \<open>TypeError\<close>.

  \<^bold>\<open>What the lemmas show.\<close> Per component: the characterisation of each
  validator and reader (when it accepts, which fields it reports); round trips
  between encoders and validators; that every statement keeps \<open>store_ok\<close>
  (primary keys distinct, every result row has its parent) and only appends
  (\<open>extends\<close>), and which rows a bulk insert adds (\<open>insert_results_new\<close>);
  what \<open>save_analysis\<close> returns and writes on each branch (elimination rules
  \<open>save_analysis_elim\<close>, \<open>save_results_elim\<close>), that saving and reading back
  reproduces the request, and that the result rows it writes are the issues
  of the reply, field by field, under the identifier of the new parent row
  (\<open>issue_row\<close>); for \<open>analyze_code\<close> the elimination rule
  \<open>analyze_code_elim\<close> with one case per path, from which follow the status
  codes, the count of issues, the refusal of blank input and the treatment of
  missing and unparsable replies. For the whole service: \<open>store_ok\<close> in
  every reachable world by rule induction, and the refinement of the abstract
  histories by \<open>handle\<close>. Across components (this theory): the response does
  not depend on the store; a request writes only its caller's row and leaves
  other users' histories alone; a new row heads the caller's history.

  \<^bold>\<open>What modelling showed.\<close> The stored \<open>issues_count\<close> is the model's own
  figure, not the number of issues (\<open>persisted_count_is_self_reported\<close>); a
  figure outside the 32-bit range makes the store refuse the whole record
  (\<open>oversized_count_loses_record\<close>). The reply is stored before it is
  validated, so a request answered 500 can leave a record
  (\<open>store_independent_of_validation\<close>). A parent insert that returns no row
  yields the marker \<open>error-saving-db\<close> and the line \<open>Analysis saved\<close>
  (\<open>failed_write_logged_as_saved\<close>). One issue without a required field makes
  the store refuse all issues of the analysis
  (\<open>incomplete_issue_stores_no_issue\<close>). A \<open>null\<close> for \<open>optimized_code\<close> or
  \<open>summary\<close> is not defaulted and gives 500 (\<open>null_field_is_500\<close>).

  \<^bold>\<open>Evaluation.\<close> All definitions are executable. The closed instances
  are evaluated by \<open>simp\<close> with the bundles \<open>schema_eval\<close>, \<open>store_eval\<close>,
  \<open>services_eval\<close> and \<open>api_eval\<close>, against the stub \<open>stub_env\<close> of \<open>Api\<close>
  and the sample stores of \<open>Store\<close>.

  \<^bold>\<open>Bounds.\<close> No loop of the sources is unbounded: the two loops run over a
  finite list and are structural recursions (\<open>traverse\<close>, \<open>collect\<close>), so no
  fuel is used. Python's integers are \<open>int\<close>; the two \<open>INTEGER\<close> columns
  accept the values from \<open>- 2 ^ 31\<close> up to \<open>2 ^ 31 - 1\<close>. Instants are natural
  numbers.

  \<^bold>\<open>Assumptions.\<close> These are choices of the model, not facts read off the
  sources. (1) The database behaves as PostgreSQL documents: constraints are
  checked before a statement stores anything, a bulk insert is applied as a
  whole or not at all, an insert returns the rows it stored. (2) Among rows
  with the same \<open>created_at\<close>, \<open>select_history\<close> returns the later insert
  first; SQL leaves that order open. (3) A \<open>coercion\<close> that is \<open>lawful\<close>
  reads a JSON string or integer as itself; the theorems that need it say so.
  (4) \<open>create_client\<close> succeeds whenever both variables are set; the library
  can refuse a malformed URL or key, which \<open>init_service\<close> does not show.
  (5) Strings are lists of 8-bit characters, and \<open>strip\<close> removes the ASCII
  white space; Python also strips the white space of Unicode. (6) The store's
  contents survive a restart of the process, and the first start-up finds the
  two tables empty, as \<open>setup_database\<close> leaves them.

  \<^bold>\<open>Not modelled.\<close> The libraries behind the calls (the Groq client, the
  JSON parser, pydantic's coercions, the Supabase client and PostgREST, the
  FastAPI router and CORS middleware) appear only through the parameters
  above; the wall-clock rendering of timestamps; the one-off script
  \<open>setup_database\<close> that sends the DDL (its effect, the two empty tables, is
  \<open>empty_store\<close>); \<open>ON DELETE CASCADE\<close> and the two indexes, since the
  service never deletes and an index changes no result; the classes of
  \<open>models.py\<close> that no route uses (\<open>AnalysisData\<close>, \<open>APIResponse\<close> and its
  copies of the request and issue classes). Requests are handled one after
  another: a run is a sequence of whole handler calls. Each handler makes at
  most two store calls, and the interleaving of the store calls of concurrent
  requests is not modelled.

  \<^bold>\<open>Plan.\<close> Next: interleavings of the two inserts of concurrent requests
  as a small-step relation over pending requests, with \<open>store_ok\<close> and the
  refinement carried over; a run-level specification (\<open>spec_step\<close> folded
  over a run) and the users' histories as an invariant of the trace; the
  errors of request validation by field; the cascade of
  \<open>ON DELETE CASCADE\<close>.
\<close>

section \<open>Failure isolation\<close>

text \<open>
  C1. The response of \<open>analyze_code\<close> (status, detail or body) is a function of
  the request, the provider's reply, the parser and the validation coercion
  alone: replacing the database, the printed lines, the process environment,
  the store's casts and the outcome of both store calls by any others leaves
  it unchanged. In particular a store that cannot be reached never turns a
  successful analysis into an error.
\<close>

theorem response_independent_of_store:
  "fst (analyze_code E oc1 oc2 request u w) =
   fst (analyze_code (E\<lparr>os_environ := environ', casts := casts'\<rparr>) oc1' oc2' request u w')"
  by (simp add: analyze_code_def review_def split: sum.splits option.splits prod.splits)

section \<open>Isolation between users\<close>

text \<open>
  C14. A request writes only into its caller's history: a row that is in
  \<open>analyses\<close> after \<open>analyze_code\<close> and was not there before belongs to the
  caller's \<open>X-User-ID\<close> and carries the code, the language and the file name
  of the request.
\<close>

theorem request_writes_only_own_row:
  assumes "lawful (casts E)"
    and "row \<in> set (analyses (db (snd (analyze_code E oc1 oc2 req u w))))"
    and "row \<notin> set (analyses (db w))"
  shows "a_user_id row = u \<and> a_code_snippet row = code req \<and>
         a_language row = language req \<and> a_file_name row = file_name req"
  using analyze_code_rows [OF assms(1) surjective_pairing, of oc1 oc2 req u w] assms(2,3)
  by auto

theorem request_writes_only_own_row_witness:
  "a_user_id \<lparr>a_id = ''a1'', a_user_id = ''u1'', a_code_snippet = ''def f(): pass'',
      a_language = ''python'', a_file_name = None, a_summary = Some ''ok'',
      a_optimized_code = Some ''def f():\<newline>    pass'',
      a_issues_count = Some 0, a_created_at = 5\<rparr> = ''u1'' \<and>
   analyses (db (snd (analyze_code (stub_env stub_reply) (served (\<lambda>_. ''a1'') 5)
      (served (\<lambda>_. ''r1'') 6) stub_request ''u1'' fresh_world))) =
     [\<lparr>a_id = ''a1'', a_user_id = ''u1'', a_code_snippet = ''def f(): pass'',
       a_language = ''python'', a_file_name = None, a_summary = Some ''ok'',
       a_optimized_code = Some ''def f():\<newline>    pass'',
       a_issues_count = Some 0, a_created_at = 5\<rparr>]"
  using request_writes_only_own_row [of "stub_env stub_reply"
      "\<lparr>a_id = ''a1'', a_user_id = ''u1'', a_code_snippet = ''def f(): pass'',
        a_language = ''python'', a_file_name = None, a_summary = Some ''ok'',
        a_optimized_code = Some ''def f():\<newline>    pass'',
        a_issues_count = Some 0, a_created_at = 5\<rparr>"
      "served (\<lambda>_. ''a1'') 5" "served (\<lambda>_. ''r1'') 6" stub_request "''u1''" fresh_world]
  by (simp add: scenario_run)

text \<open>
  C13. A request does not change what another user reads: for a user other
  than the caller, a served \<open>get_history\<close> after \<open>analyze_code\<close> returns what
  it returned before, whatever provider and store did during the request.
\<close>

theorem other_users_history_unchanged:
  assumes "lawful (casts E)" and "u' \<noteq> u"
  shows "fst (get_history (served ids t) u' (snd (analyze_code E oc1 oc2 req u w))) =
         fst (get_history (served ids t) u' w)"
  using analyze_code_rows [OF assms(1) surjective_pairing, of oc1 oc2 req u w] assms(2)
  by auto

theorem other_users_history_unchanged_witness:
  "fst (get_history (served (\<lambda>_. ''h'') 9) ''u2''
      (snd (analyze_code (stub_env stub_reply) (served (\<lambda>_. ''a1'') 5)
        (served (\<lambda>_. ''r1'') 6) stub_request ''u1'' fresh_world))) = []"
  using other_users_history_unchanged [of "stub_env stub_reply" "''u2''" "''u1''"
      "\<lambda>_. ''h''" 9 "served (\<lambda>_. ''a1'') 5" "served (\<lambda>_. ''r1'') 6" stub_request fresh_world]
  by (simp add: empty_store_def)

section \<open>From a request to the history\<close>

text \<open>
  C15. Newest first, end to end: if rows were inserted in order of time, the
  clock of the store has not gone back, and a request adds a row, then a
  served history of the caller after the request is that row followed by the
  history before it; the row carries the code and the language of the
  request.
\<close>

theorem new_analysis_heads_history:
  assumes "lawful (casts E)" and "chronological (db w)"
    and "\<forall>r\<in>set (analyses (db w)). a_created_at r \<le> clock oc1"
    and "analyses (db (snd (analyze_code E oc1 oc2 req u w))) \<noteq> analyses (db w)"
  shows "\<exists>row. fst (get_history (served ids t) u (snd (analyze_code E oc1 oc2 req u w))) =
           row # fst (get_history (served ids t) u w) \<and>
           a_code_snippet row = code req \<and> a_language row = language req \<and>
           a_created_at row = clock oc1"
proof -
  let ?w' = "snd (analyze_code E oc1 oc2 req u w)"
  from analyze_code_rows [OF assms(1) surjective_pairing, of oc1 oc2 req u w] assms(4)
  obtain row where row: "analyses (db ?w') = analyses (db w) @ [row]" "a_user_id row = u"
    "a_code_snippet row = code req" "a_language row = language req" "a_created_at row = clock oc1"
    by auto
  with assms(2,3) have "chronological (db ?w')"
    by (auto simp: chronological_def sorted_append)
  then have "fst (get_history (served ids t) u ?w') =
      rev (filter (\<lambda>r. a_user_id r = u) (analyses (db ?w')))"
    by (simp add: select_history_chronological)
  moreover from assms(2) have "fst (get_history (served ids t) u w) =
      rev (filter (\<lambda>r. a_user_id r = u) (analyses (db w)))"
    by (simp add: select_history_chronological)
  ultimately show ?thesis using row by simp
qed

theorem new_analysis_heads_history_witness:
  "fst (get_history (served (\<lambda>_. ''h'') 9) ''u1''
      (snd (analyze_code (stub_env stub_reply) (served (\<lambda>_. ''a1'') 5)
        (served (\<lambda>_. ''r1'') 6) stub_request ''u1'' fresh_world))) =
     [\<lparr>a_id = ''a1'', a_user_id = ''u1'', a_code_snippet = ''def f(): pass'',
       a_language = ''python'', a_file_name = None, a_summary = Some ''ok'',
       a_optimized_code = Some ''def f():\<newline>    pass'',
       a_issues_count = Some 0, a_created_at = 5\<rparr>]"
  using new_analysis_heads_history [of "stub_env stub_reply" fresh_world "served (\<lambda>_. ''a1'') 5"
      "served (\<lambda>_. ''r1'') 6" stub_request "''u1''" "\<lambda>_. ''h''" 9]
  by (simp add: scenario_run sort_desc_def)

end
